theory Spec2Isabelle
  imports Complex_Main
begin

section \<open>Data model\<close>

text \<open>
  The backtesting core of the trading platform (\<^verbatim>\<open>server/src/backtest/engine.ts\<close>,
  \<^verbatim>\<open>server/src/strategies/base.ts\<close>, \<^verbatim>\<open>sma-crossover.ts\<close>, \<^verbatim>\<open>index.ts\<close>).

  A TypeScript \<^verbatim>\<open>number\<close> that holds a price, a cash amount or a ratio is a
  \<^typ>\<open>real\<close>: arithmetic is exact, and the values \<^verbatim>\<open>Infinity\<close> and \<^verbatim>\<open>NaN\<close>,
  which the source produces only by dividing by zero, are not represented.  A statement
  below that depends on a quotient therefore assumes its divisor to be non-zero.  The
  source computes in IEEE 754 binary64, so exact arithmetic is an idealisation; where the
  rounding decides a property, as for the cash that a buy leaves, the operations are
  modelled with their rounding (section \<open>Binary64 arithmetic of a buy\<close>).
  A \<^verbatim>\<open>number\<close> that is an array index or a bar count (a period) is an
  \<^typ>\<open>int\<close>.  Reading a property of \<^verbatim>\<open>bars[i]\<close> with \<^verbatim>\<open>i\<close> out of range throws a
  \<^verbatim>\<open>TypeError\<close> in the source; the model returns it as a value.
\<close>

datatype error =
    Error string  \<comment> \<open>\<^verbatim>\<open>throw new Error(msg)\<close>\<close>
  | TypeError     \<comment> \<open>property read on \<^verbatim>\<open>undefined\<close>\<close>
  | RangeError    \<comment> \<open>a call with more arguments than the JavaScript engine takes\<close>

text \<open>The fields \<^verbatim>\<open>t o h l c v\<close> of a bar carry the prefix \<^verbatim>\<open>bar_\<close>
  (\<^verbatim>\<open>o\<close> is function composition in HOL).\<close>

record Bar =
  bar_t :: string
  bar_o :: real
  bar_h :: real
  bar_l :: real
  bar_c :: real
  bar_v :: real

datatype action = buy | sell | hold

text \<open>The reason of a signal is a template string; the interpolated values are kept as
  arguments instead of being rendered.\<close>

datatype signal_reason =
    Insufficient_data_for_analysis
  | Bullish_crossover int int   \<comment> \<open>\<^verbatim>\<open>Bullish crossover: SMA(s) crossed above SMA(l)\<close>\<close>
  | Bearish_crossover int int   \<comment> \<open>\<^verbatim>\<open>Bearish crossover: SMA(s) crossed below SMA(l)\<close>\<close>
  | No_crossover_detected

record StrategySignal =
  timestamp :: string
  action :: action
  confidence :: real
  reason :: signal_reason

section \<open>Indicator helpers of \<^verbatim>\<open>BaseStrategy\<close>\<close>

definition and_then :: "error + 'a \<Rightarrow> ('a \<Rightarrow> error + 'b) \<Rightarrow> error + 'b" where
  "and_then r f = (case r of Inl e \<Rightarrow> Inl e | Inr x \<Rightarrow> f x)"

text \<open>\<^verbatim>\<open>bars[i]\<close> followed by a property read.\<close>

definition bar_at :: "Bar list \<Rightarrow> int \<Rightarrow> error + Bar" where
  "bar_at bars i =
     (if 0 \<le> i \<and> i < int (length bars) then Inr (bars ! nat i) else Inl TypeError)"



text \<open>The loop of \<^verbatim>\<open>calculateRSI\<close>; the state is \<^verbatim>\<open>(gains, losses)\<close>.\<close>

fun rsi_loop :: "Bar list \<Rightarrow> int list \<Rightarrow> real \<times> real \<Rightarrow> error + real \<times> real" where
  "rsi_loop bars [] gl = Inr gl"
| "rsi_loop bars (i # is) gl =
     (case bar_at bars i of
        Inl e \<Rightarrow> Inl e
      | Inr b \<Rightarrow>
         (case bar_at bars (i - 1) of
            Inl e \<Rightarrow> Inl e
          | Inr b' \<Rightarrow>
             (let change = bar_c b - bar_c b' in
              if change > 0 then rsi_loop bars is (fst gl + change, snd gl)
              else rsi_loop bars is (fst gl, snd gl + \<bar>change\<bar>))))"

definition calculateRSI :: "Bar list \<Rightarrow> int \<Rightarrow> int \<Rightarrow> error + real" where
  "calculateRSI bars period endIndex =
     (if endIndex < period then Inr 50
      else and_then (rsi_loop bars [endIndex - period + 1 .. endIndex] (0, 0))
             (\<lambda>(gains, losses).
                let avgGain = gains / of_int period;
                    avgLoss = losses / of_int period
                in if avgLoss = 0 then Inr 100
                   else let rs = avgGain / avgLoss in Inr (100 - 100 / (1 + rs))))"

section \<open>\<^verbatim>\<open>SMACrossoverStrategy\<close>\<close>


section \<open>The strategy registry\<close>

text \<open>
  \<^verbatim>\<open>strategies/index.ts\<close>.  The module-level constant \<^verbatim>\<open>strategies\<close> maps an
  identifier to a strategy object; \<^verbatim>\<open>getStrategy\<close> hands out that very object.  To tell
  an object from a copy of it, objects live in a store and are named by a reference.  A
  stored object is modelled by its data fields, with numbers as the values of
  \<^verbatim>\<open>parameters\<close>; its method \<^verbatim>\<open>analyze\<close> reads \<^verbatim>\<open>parameters\<close> on every call (the
  periods are the first arguments of \<open>SMACrossoverStrategy_analyze\<close>).
\<close>

type_synonym ref = nat

record strategy_instance =
  instance_name :: string
  instance_description :: string
  parameters :: "string \<rightharpoonup> real"

record registry =
  strategies :: "string \<rightharpoonup> ref"
  heap :: "ref \<rightharpoonup> strategy_instance"

text \<open>The module after loading: the two instances built with the constructors' defaults.\<close>

definition initial_registry :: registry where
  "initial_registry =
     \<lparr>strategies = [''sma-crossover'' \<mapsto> 0, ''rsi'' \<mapsto> 1],
      heap =
        [0 \<mapsto> \<lparr>instance_name = ''SMA Crossover'',
                instance_description = ''Simple Moving Average crossover strategy - buy when short SMA crosses above long SMA'',
                parameters = [''shortPeriod'' \<mapsto> 10, ''longPeriod'' \<mapsto> 30]\<rparr>,
         1 \<mapsto> \<lparr>instance_name = ''RSI Strategy'',
                instance_description = ''Relative Strength Index strategy - buy when oversold, sell when overbought'',
                parameters = [''period'' \<mapsto> 14, ''oversoldLevel'' \<mapsto> 30,
                              ''overboughtLevel'' \<mapsto> 70]\<rparr>]\<rparr>"

text \<open>\<^verbatim>\<open>getStrategy(name, params?)\<close> returns \<^verbatim>\<open>null\<close> for an unregistered name.  A
  given \<^verbatim>\<open>params\<close> object is truthy, also when it is empty; the spread
  \<^verbatim>\<open>{ ...strategy.parameters, ...params }\<close> is the map \<open>parameters ++ params\<close>, assigned to
  the field of the registered object.  (A name bound to a reference with no object does
  not occur: the registry holds objects.)\<close>

definition getStrategy ::
    "string \<Rightarrow> (string \<rightharpoonup> real) option \<Rightarrow> registry \<Rightarrow> ref option \<times> registry" where
  "getStrategy name' params st =
     (case strategies st name' of
        None \<Rightarrow> (None, st)
      | Some r \<Rightarrow>
         (case heap st r of
            None \<Rightarrow> (None, st)
          | Some obj \<Rightarrow>
             (case params of
                None \<Rightarrow> (Some r, st)
              | Some ps \<Rightarrow>
                 (Some r,
                  st\<lparr>heap := (heap st)(r \<mapsto> obj\<lparr>parameters := parameters obj ++ ps\<rparr>)\<rparr>))))"

section \<open>The strategy interface and the engine's records\<close>

text \<open>
  \<^verbatim>\<open>IStrategy\<close> as the engine uses it: the name, the method \<^verbatim>\<open>analyze\<close>, which may
  throw, and the optional method \<^verbatim>\<open>initialize\<close>.  Both shipped strategies compute
  \<^verbatim>\<open>analyze\<close> from the bars, the index and their parameters only, so the model of a
  strategy carries no state of its own.  Of \<^verbatim>\<open>initialize\<close> the model therefore keeps
  what a caller can see: whether the method is there, and whether a call of it returns or
  throws.  \<^verbatim>\<open>BaseStrategy.initialize\<close> has an empty body: it is there and returns.
\<close>

record IStrategy =
  name :: string
  description :: string
  analyze :: "Bar list \<Rightarrow> int \<Rightarrow> error + StrategySignal"
  initialize :: "(error + unit) option"   \<comment> \<open>\<^verbatim>\<open>initialize?(): void\<close>\<close>


record BacktestConfig =
  symbol :: string
  startDate :: string
  endDate :: string
  initialCapital :: real
  strategy :: IStrategy
  commission :: "real option"   \<comment> \<open>\<^verbatim>\<open>commission?: number\<close>\<close>

record Trade =
  trade_timestamp :: string
  trade_action :: action
  trade_symbol :: string
  trade_quantity :: real
  trade_price :: real
  trade_value :: real
  trade_reason :: string

record EquityPoint =
  point_timestamp :: string
  equity :: real
  drawdown :: real

record BacktestResult =
  strategy_id :: string
  result_symbol :: string
  start_date :: string
  end_date :: string
  initial_capital :: real
  final_capital :: real
  total_return :: real
  total_return_pct :: real
  sharpe_ratio :: real
  max_drawdown :: real
  total_trades :: nat
  winning_trades :: nat
  losing_trades :: nat
  win_rate :: real
  result_trades :: "Trade list"
  equity_curve :: "EquityPoint list"

text \<open>The private fields of a \<^verbatim>\<open>BacktestEngine\<close> instance.\<close>

record BacktestEngine =
  config :: BacktestConfig
  capital :: real
  position :: real
  trades :: "Trade list"
  equityCurve :: "EquityPoint list"

section \<open>\<^verbatim>\<open>BacktestEngine\<close>\<close>

text \<open>The constructor.\<close>

definition new_BacktestEngine :: "BacktestConfig \<Rightarrow> BacktestEngine" where
  "new_BacktestEngine cfg =
     \<lparr>config = cfg, capital = initialCapital cfg, position = 0, trades = [], equityCurve = []\<rparr>"

text \<open>\<^verbatim>\<open>this.config.commission || 0\<close> and \<^verbatim>\<open>reason || 'Strategy signal'\<close>.\<close>

definition commission_or_0 :: "BacktestConfig \<Rightarrow> real" where
  "commission_or_0 cfg = (case commission cfg of None \<Rightarrow> 0 | Some x \<Rightarrow> x)"

definition reason_or_default :: "string option \<Rightarrow> string" where
  "reason_or_default r =
     (case r of None \<Rightarrow> ''Strategy signal''
      | Some x \<Rightarrow> if x = [] then ''Strategy signal'' else x)"

definition executeBuy :: "BacktestEngine \<Rightarrow> Bar \<Rightarrow> string option \<Rightarrow> BacktestEngine" where
  "executeBuy e bar reason' =
     (let commission' = commission_or_0 (config e);
          price = bar_c bar;
          quantity = of_int \<lfloor>(capital e - commission') / price\<rfloor>
      in if quantity \<le> 0 then e
         else
           let totalCost = quantity * price + commission'
           in e\<lparr>capital := capital e - totalCost,
                position := position e + quantity,
                trades := trades e @
                  [\<lparr>trade_timestamp = bar_t bar, trade_action = buy,
                    trade_symbol = symbol (config e), trade_quantity = quantity,
                    trade_price = price, trade_value = totalCost,
                    trade_reason = reason_or_default reason'\<rparr>]\<rparr>)"

definition executeSell :: "BacktestEngine \<Rightarrow> Bar \<Rightarrow> string option \<Rightarrow> BacktestEngine" where
  "executeSell e bar reason' =
     (if position e \<le> 0 then e
      else
        let commission' = commission_or_0 (config e);
            price = bar_c bar;
            quantity = position e;
            totalValue = quantity * price - commission'
        in e\<lparr>capital := capital e + totalValue,
             position := 0,
             trades := trades e @
               [\<lparr>trade_timestamp = bar_t bar, trade_action = sell,
                 trade_symbol = symbol (config e), trade_quantity = quantity,
                 trade_price = price, trade_value = totalValue,
                 trade_reason = reason_or_default reason'\<rparr>]\<rparr>)"

subsection \<open>\<^verbatim>\<open>generateReport\<close>\<close>

text \<open>\<^verbatim>\<open>this.trades[this.trades.length - 1]?.price || 0\<close>.\<close>

definition last_trade_price :: "Trade list \<Rightarrow> real" where
  "last_trade_price ts = (if ts = [] then 0 else trade_price (last ts))"

text \<open>\<^verbatim>\<open>this.equityCurve.map((point, i) => ...)\<close>.\<close>

definition returns_of :: "EquityPoint list \<Rightarrow> real list" where
  "returns_of curve =
     map (\<lambda>i. if i = 0 then 0
              else (equity (curve ! i) - equity (curve ! (i - 1))) / equity (curve ! (i - 1)))
         [0..<length curve]"

text \<open>The loop that pairs the i-th sell with the i-th buy; the state is
  \<^verbatim>\<open>(winningTrades, losingTrades)\<close>.\<close>

fun win_loop :: "Trade list \<Rightarrow> Trade list \<Rightarrow> nat list \<Rightarrow> nat \<times> nat \<Rightarrow> nat \<times> nat" where
  "win_loop sellTrades buyTrades [] wl = wl"
| "win_loop sellTrades buyTrades (i # is) wl =
     (if i < length buyTrades then
        (let profit = trade_value (sellTrades ! i) - trade_value (buyTrades ! i)
         in if profit > 0 then win_loop sellTrades buyTrades is (fst wl + 1, snd wl)
            else win_loop sellTrades buyTrades is (fst wl, snd wl + 1))
      else win_loop sellTrades buyTrades is wl)"

text \<open>\<^verbatim>\<open>Math.max(...xs)\<close> spreads the array into the arguments of one call.  A JavaScript
  engine takes only so many arguments and throws a \<^verbatim>\<open>RangeError\<close> beyond; that number
  is the engine's, not the repository's, and is the parameter \<open>max_arguments\<close> here and
  in \<^verbatim>\<open>generateReport\<close> and \<^verbatim>\<open>run\<close>.  Of one or more numbers the call returns the
  greatest.  With no argument the source yields \<^verbatim>\<open>-Infinity\<close>, which is no real;
  \<^verbatim>\<open>run\<close> never calls it so, as the equity curve has a point per bar and there is at
  least one bar.\<close>

fun greatest :: "real list \<Rightarrow> real" where
  "greatest [x] = x"
| "greatest (x # y # ys) = max x (greatest (y # ys))"

definition Math_max :: "nat \<Rightarrow> real list \<Rightarrow> error + real" where
  "Math_max max_arguments xs =
     (if max_arguments < length xs then Inl RangeError else Inr (greatest xs))"

definition generateReport :: "nat \<Rightarrow> BacktestEngine \<Rightarrow> error + BacktestResult" where
  "generateReport max_arguments e =
     (let finalEquity = capital e + position e * last_trade_price (trades e);
          totalReturn = finalEquity - initialCapital (config e);
          totalReturnPct = (totalReturn / initialCapital (config e)) * 100;
          returns = returns_of (equityCurve e);
          avgReturn = foldl (\<lambda>a b. a + b) 0 returns / real (length returns);
          stdDev = sqrt (foldl (\<lambda>sum' r. sum' + (r - avgReturn) ^ 2) 0 returns
                         / real (length returns));
          sharpeRatio = (if stdDev > 0 then (avgReturn / stdDev) * sqrt 252 else 0);
          buyTrades = filter (\<lambda>t. trade_action t = buy) (trades e);
          sellTrades = filter (\<lambda>t. trade_action t = sell) (trades e);
          wl = win_loop sellTrades buyTrades [0..<length sellTrades] (0, 0);
          winningTrades = fst wl;
          losingTrades = snd wl;
          totalTrades = winningTrades + losingTrades;
          winRate = (if totalTrades > 0 then (real winningTrades / real totalTrades) * 100 else 0)
      in and_then (Math_max max_arguments (map drawdown (equityCurve e))) (\<lambda>maxDrawdown.
         Inr
         \<lparr>strategy_id = name (strategy (config e)),
          result_symbol = symbol (config e),
          start_date = startDate (config e),
          end_date = endDate (config e),
          initial_capital = initialCapital (config e),
          final_capital = finalEquity,
          total_return = totalReturn,
          total_return_pct = totalReturnPct,
          sharpe_ratio = sharpeRatio,
          max_drawdown = maxDrawdown,
          total_trades = length (trades e),
          winning_trades = winningTrades,
          losing_trades = losingTrades,
          win_rate = winRate,
          result_trades = trades e,
          equity_curve = equityCurve e\<rparr>))"

subsection \<open>\<^verbatim>\<open>run\<close>\<close>

text \<open>One iteration of the loop over the bars.  The state is the engine together with the
  locals \<^verbatim>\<open>peakEquity\<close> and \<^verbatim>\<open>maxDrawdown\<close>; the loop guard keeps \<open>i\<close> below
  the number of bars.\<close>

definition run_step ::
    "Bar list \<Rightarrow> nat \<Rightarrow> BacktestEngine \<times> real \<times> real \<Rightarrow> error + BacktestEngine \<times> real \<times> real" where
  "run_step bars i st =
     (case st of (e, peakEquity, maxDrawdown) \<Rightarrow>
        let bar = bars ! i in
        and_then (analyze (strategy (config e)) bars (int i)) (\<lambda>signal.
          let currentEquity = capital e + position e * bar_c bar;
              peakEquity' = (if currentEquity > peakEquity then currentEquity else peakEquity);
              drawdown' = (peakEquity' - currentEquity) / peakEquity';
              maxDrawdown' = max maxDrawdown drawdown';
              e1 = e\<lparr>equityCurve := equityCurve e @
                     [\<lparr>point_timestamp = bar_t bar, equity = currentEquity,
                       drawdown = drawdown'\<rparr>]\<rparr>;
              e2 = (if action signal = buy \<and> position e1 = 0 \<and> confidence signal > 0.5
                    then executeBuy e1 bar None
                    else if action signal = sell \<and> position e1 > 0 \<and> confidence signal > 0.5
                    then executeSell e1 bar None
                    else e1)
          in Inr (e2, peakEquity', maxDrawdown')))"

fun run_loop ::
    "Bar list \<Rightarrow> nat list \<Rightarrow> BacktestEngine \<times> real \<times> real \<Rightarrow> error + BacktestEngine \<times> real \<times> real" where
  "run_loop bars [] st = Inr st"
| "run_loop bars (i # is) st =
     (case run_step bars i st of
        Inl err \<Rightarrow> Inl err
      | Inr st' \<Rightarrow> run_loop bars is st')"

text \<open>\<^verbatim>\<open>if (this.config.strategy.initialize) this.config.strategy.initialize()\<close>.\<close>

definition call_initialize :: "IStrategy \<Rightarrow> error + unit" where
  "call_initialize s = (case initialize s of None \<Rightarrow> Inr () | Some outcome \<Rightarrow> outcome)"

text \<open>\<^verbatim>\<open>run\<close> returns the report; the model returns the engine's final fields with it.
  A rejected promise is an \<open>Inl\<close>; it carries no report.\<close>

definition run ::
    "nat \<Rightarrow> BacktestEngine \<Rightarrow> Bar list \<Rightarrow> error + BacktestResult \<times> BacktestEngine" where
  "run max_arguments e bars =
     (if length bars = 0 then Inl (Error ''No bars provided for backtest'')
      else
        and_then (call_initialize (strategy (config e))) (\<lambda>_.
        and_then (run_loop bars [0..<length bars] (e, initialCapital (config e), 0)) (\<lambda>st.
          case st of (e', peakEquity, maxDrawdown) \<Rightarrow>
            let e'' = (if position e' > 0
                       then executeSell e' (bars ! (length bars - 1)) (Some ''End of backtest'')
                       else e')
            in and_then (generateReport max_arguments e'') (\<lambda>report. Inr (report, e'')))))"

section \<open>Specification-level notions and example inputs\<close>

text \<open>The close-to-close change at bar \<open>i\<close>, and the simple averages of the gains and
  of the losses over the \<open>period\<close> changes that end at \<open>endIndex\<close>.\<close>

definition close_change :: "Bar list \<Rightarrow> int \<Rightarrow> real" where
  "close_change bars i = bar_c (bars ! nat i) - bar_c (bars ! nat (i - 1))"

definition average_gain :: "Bar list \<Rightarrow> int \<Rightarrow> int \<Rightarrow> real" where
  "average_gain bars period endIndex =
     (\<Sum>i\<leftarrow>[endIndex - period + 1 .. endIndex].
        if close_change bars i > 0 then close_change bars i else 0) / of_int period"

definition average_loss :: "Bar list \<Rightarrow> int \<Rightarrow> int \<Rightarrow> real" where
  "average_loss bars period endIndex =
     (\<Sum>i\<leftarrow>[endIndex - period + 1 .. endIndex].
        if close_change bars i > 0 then 0 else \<bar>close_change bars i\<bar>) / of_int period"




text \<open>The quantity a buy fills, and the trades the two executions append.\<close>

definition fill_quantity :: "BacktestEngine \<Rightarrow> Bar \<Rightarrow> real" where
  "fill_quantity e bar = of_int \<lfloor>(capital e - commission_or_0 (config e)) / bar_c bar\<rfloor>"

definition buy_trade :: "BacktestEngine \<Rightarrow> Bar \<Rightarrow> Trade" where
  "buy_trade e bar =
     \<lparr>trade_timestamp = bar_t bar, trade_action = buy, trade_symbol = symbol (config e),
      trade_quantity = fill_quantity e bar, trade_price = bar_c bar,
      trade_value = fill_quantity e bar * bar_c bar + commission_or_0 (config e),
      trade_reason = ''Strategy signal''\<rparr>"

definition sell_trade :: "BacktestEngine \<Rightarrow> Bar \<Rightarrow> string \<Rightarrow> Trade" where
  "sell_trade e bar why =
     \<lparr>trade_timestamp = bar_t bar, trade_action = sell, trade_symbol = symbol (config e),
      trade_quantity = position e, trade_price = bar_c bar,
      trade_value = position e * bar_c bar - commission_or_0 (config e),
      trade_reason = why\<rparr>"

text \<open>The loop state when iteration \<open>n\<close> of a run on a fresh engine starts, and the point
  an iteration appends: the equity is marked to the bar's close before the bar's trade,
  the drawdown is taken from the peak updated with that equity.\<close>

definition state_before ::
    "BacktestConfig \<Rightarrow> Bar list \<Rightarrow> nat \<Rightarrow> error + BacktestEngine \<times> real \<times> real" where
  "state_before cfg bars n =
     run_loop bars [0..<n] (new_BacktestEngine cfg, initialCapital cfg, 0)"

definition equity_point :: "BacktestEngine \<Rightarrow> real \<Rightarrow> Bar \<Rightarrow> EquityPoint" where
  "equity_point e peak bar =
     \<lparr>point_timestamp = bar_t bar,
      equity = capital e + position e * bar_c bar,
      drawdown = (max peak (capital e + position e * bar_c bar)
                    - (capital e + position e * bar_c bar))
                 / max peak (capital e + position e * bar_c bar)\<rparr>"

text \<open>The engine after an iteration has appended its point, before the bar's trade.\<close>

definition after_point :: "BacktestEngine \<Rightarrow> real \<Rightarrow> Bar \<Rightarrow> BacktestEngine" where
  "after_point e peak bar = e\<lparr>equityCurve := equityCurve e @ [equity_point e peak bar]\<rparr>"

text \<open>The engine with another strategy object in its configuration.\<close>

definition with_strategy :: "IStrategy \<Rightarrow> BacktestEngine \<Rightarrow> BacktestEngine" where
  "with_strategy s e = e\<lparr>config := (config e)\<lparr>strategy := s\<rparr>\<rparr>"

text \<open>The report \<^verbatim>\<open>generateReport\<close> returns when the engine takes the equity curve as
  arguments.\<close>

definition report_of :: "BacktestEngine \<Rightarrow> BacktestResult" where
  "report_of e = projr (generateReport (length (equityCurve e)) e)"

text \<open>The running maximum of the equities recorded up to and including point \<open>i\<close>.\<close>

definition running_peak :: "EquityPoint list \<Rightarrow> nat \<Rightarrow> real" where
  "running_peak curve i = Max (equity ` set (take (Suc i) curve))"

text \<open>Example inputs: bars whose five prices are all the close, and the stub strategy of the
  buy-then-sell scenario (buy at index 0, sell at index 2, confidence 1).\<close>

definition mkbar :: "string \<Rightarrow> real \<Rightarrow> Bar" where
  "mkbar ts x = \<lparr>bar_t = ts, bar_o = x, bar_h = x, bar_l = x, bar_c = x, bar_v = 0\<rparr>"

definition bars_10_9_8_14 :: "Bar list" where
  "bars_10_9_8_14 = [mkbar ''d0'' 10, mkbar ''d1'' 9, mkbar ''d2'' 8, mkbar ''d3'' 14]"


definition stub_strategy :: IStrategy where
  "stub_strategy =
     \<lparr>name = ''stub'', description = ''buy at 0, sell at 2'',
      analyze = (\<lambda>bars i. and_then (bar_at bars i) (\<lambda>b.
        Inr \<lparr>timestamp = bar_t b,
             action = (if i = 0 then buy else if i = 2 then sell else hold),
             confidence = 1, reason = No_crossover_detected\<rparr>)),
      initialize = None\<rparr>"

definition stub_config :: BacktestConfig where
  "stub_config =
     \<lparr>symbol = ''X'', startDate = ''2024-01-01'', endDate = ''2024-01-03'',
      initialCapital = 1000, strategy = stub_strategy, commission = Some 0\<rparr>"

text \<open>Two more bar sequences for the stub strategy, with the engine's fields after the loop
  (\<open>stub_final\<close>, \<open>stub_open\<close>) and after the close-out (\<open>stub_closed\<close>).\<close>

definition bars_100_80_120 :: "Bar list" where
  "bars_100_80_120 = [mkbar ''d0'' 100, mkbar ''d1'' 80, mkbar ''d2'' 120]"

definition bars_100_120 :: "Bar list" where
  "bars_100_120 = [mkbar ''d0'' 100, mkbar ''d1'' 120]"

definition stub_trades :: "Trade list" where
  "stub_trades =
     [\<lparr>trade_timestamp = ''d0'', trade_action = buy, trade_symbol = ''X'',
       trade_quantity = 10, trade_price = 100, trade_value = 1000,
       trade_reason = ''Strategy signal''\<rparr>,
      \<lparr>trade_timestamp = ''d2'', trade_action = sell, trade_symbol = ''X'',
       trade_quantity = 10, trade_price = 120, trade_value = 1200,
       trade_reason = ''Strategy signal''\<rparr>]"

definition stub_final :: BacktestEngine where
  "stub_final =
     \<lparr>config = stub_config, capital = 1200, position = 0, trades = stub_trades,
      equityCurve =
        [\<lparr>point_timestamp = ''d0'', equity = 1000, drawdown = 0\<rparr>,
         \<lparr>point_timestamp = ''d1'', equity = 800, drawdown = 1 / 5\<rparr>,
         \<lparr>point_timestamp = ''d2'', equity = 1200, drawdown = 0\<rparr>]\<rparr>"

definition stub_open :: BacktestEngine where
  "stub_open =
     \<lparr>config = stub_config, capital = 0, position = 10, trades = [hd stub_trades],
      equityCurve =
        [\<lparr>point_timestamp = ''d0'', equity = 1000, drawdown = 0\<rparr>,
         \<lparr>point_timestamp = ''d1'', equity = 1200, drawdown = 0\<rparr>]\<rparr>"

definition stub_closed :: BacktestEngine where
  "stub_closed =
     stub_open\<lparr>capital := 1200, position := 0,
       trades := [hd stub_trades,
         \<lparr>trade_timestamp = ''d1'', trade_action = sell, trade_symbol = ''X'',
          trade_quantity = 10, trade_price = 120, trade_value = 1200,
          trade_reason = ''End of backtest''\<rparr>]\<rparr>"

text \<open>A run with a commission of 5 on an initial capital of 10: one share is bought at 5
  and sold at 1.\<close>

definition fee_config :: BacktestConfig where
  "fee_config =
     \<lparr>symbol = ''X'', startDate = ''2024-01-01'', endDate = ''2024-01-03'',
      initialCapital = 10, strategy = stub_strategy, commission = Some 5\<rparr>"

definition bars_5_5_1 :: "Bar list" where
  "bars_5_5_1 = [mkbar ''d0'' 5, mkbar ''d1'' 5, mkbar ''d2'' 1]"

definition fee_final :: BacktestEngine where
  "fee_final =
     \<lparr>config = fee_config, capital = - 4, position = 0,
      trades =
        [\<lparr>trade_timestamp = ''d0'', trade_action = buy, trade_symbol = ''X'',
          trade_quantity = 1, trade_price = 5, trade_value = 10,
          trade_reason = ''Strategy signal''\<rparr>,
         \<lparr>trade_timestamp = ''d2'', trade_action = sell, trade_symbol = ''X'',
          trade_quantity = 1, trade_price = 1, trade_value = - 4,
          trade_reason = ''Strategy signal''\<rparr>],
      equityCurve =
        [\<lparr>point_timestamp = ''d0'', equity = 10, drawdown = 0\<rparr>,
         \<lparr>point_timestamp = ''d1'', equity = 5, drawdown = 1 / 2\<rparr>,
         \<lparr>point_timestamp = ''d2'', equity = 1, drawdown = 9 / 10\<rparr>]\<rparr>"




section \<open>Binary64 arithmetic of a buy\<close>

text \<open>
  The exact arithmetic of the definitions above is an idealisation of the source's
  \<^verbatim>\<open>number\<close>, an IEEE 754 binary64: each operation of the source returns the exact
  result rounded to the nearest binary64, ties to the even significand.  Whether a buy
  leaves cash at or above 0 is decided by that rounding, so \<^verbatim>\<open>executeBuy\<close> is given a
  second time here, with every operation rounded as the source rounds it.

  \<open>ulp x\<close> is the distance between neighbouring binary64 numbers at the magnitude of
  \<open>x > 0\<close>: it scales \<open>x\<close> by powers of 2 into \<open>[2^52, 2^53)\<close>, where the
  neighbours are the integers.  Overflow to \<^verbatim>\<open>Infinity\<close> and the subnormal range below
  \<open>2^-1022\<close> are not modelled; the amounts of a backtest are far from both.
\<close>

function ulp :: "real \<Rightarrow> real" where
  "ulp x =
     (if x \<le> 0 then 1
      else if x < 2 ^ 52 then ulp (2 * x) / 2
      else if 2 ^ 53 \<le> x then ulp (x / 2) * 2
      else 1)"
  by pat_completeness auto

termination ulp
proof (relation "measure (\<lambda>x. nat \<bar>\<lfloor>log 2 x\<rfloor> - 52\<bar>)")
  have below: "\<lfloor>log 2 y\<rfloor> < int k" if "0 < y" "y < 2 ^ k" for y :: real and k :: nat
  proof -
    have "log 2 y < log 2 (2 ^ k)"
      using that by (intro log_less) simp_all
    also have "log 2 (2 ^ k) = real k" by (simp add: log_nat_power)
    finally show ?thesis by linarith
  qed
  have above: "int k \<le> \<lfloor>log 2 y\<rfloor>" if "2 ^ k \<le> y" for y :: real and k :: nat
  proof -
    have "(0::real) < 2 ^ k" by simp
    with that have pos: "0 < y" by linarith
    have "log 2 (2 ^ k) \<le> log 2 y"
      using that pos by (subst log_le_cancel_iff) simp_all
    moreover have "log 2 (2 ^ k :: real) = real k" by (simp add: log_nat_power)
    ultimately show ?thesis by (simp add: le_floor_iff)
  qed
  have double: "\<lfloor>log 2 (2 * y)\<rfloor> = \<lfloor>log 2 y\<rfloor> + 1" if "0 < y" for y :: real
  proof -
    from that have "log 2 (2 * y) = log 2 y + 1"
      by (simp add: log_mult)
    then show ?thesis by simp
  qed
  have half: "\<lfloor>log 2 (y / 2)\<rfloor> = \<lfloor>log 2 y\<rfloor> - 1" if "0 < y" for y :: real
  proof -
    from that have "log 2 (y / 2) = log 2 y - 1"
      by (simp add: log_divide)
    then show ?thesis by simp
  qed
  show "wf (measure (\<lambda>x. nat \<bar>\<lfloor>log 2 x\<rfloor> - 52\<bar>))" by simp
  show "(2 * x, x) \<in> measure (\<lambda>x. nat \<bar>\<lfloor>log 2 x\<rfloor> - 52\<bar>)"
    if "\<not> x \<le> 0" "x < 2 ^ 52" for x :: real
    using that double [of x] below [of x 52] by simp
  show "(x / 2, x) \<in> measure (\<lambda>x. nat \<bar>\<lfloor>log 2 x\<rfloor> - 52\<bar>)"
    if "\<not> x \<le> 0" "\<not> x < 2 ^ 52" "2 ^ 53 \<le> x" for x :: real
    using that half [of x] above [of 53 x] by simp
qed

text \<open>Rounding to the nearest integer, a tie to the even one; and rounding a real to the
  nearest binary64.\<close>

definition round_half_even :: "real \<Rightarrow> int" where
  "round_half_even y =
     (let f = \<lfloor>y\<rfloor>; d = y - of_int f
      in if d < 1 / 2 then f else if 1 / 2 < d then f + 1 else if even f then f else f + 1)"

definition binary64 :: "real \<Rightarrow> real" where
  "binary64 x =
     (if x = 0 then 0 else of_int (round_half_even (x / ulp \<bar>x\<bar>)) * ulp \<bar>x\<bar>)"

text \<open>\<^verbatim>\<open>executeBuy\<close> with the rounding of each operation: the subtraction and the
  division inside \<^verbatim>\<open>Math.floor\<close>, the product and the sum of \<^verbatim>\<open>totalCost\<close>, and the
  two compound assignments.  \<^verbatim>\<open>Math.floor\<close> itself is exact.\<close>

definition executeBuy_binary64 ::
    "BacktestEngine \<Rightarrow> Bar \<Rightarrow> string option \<Rightarrow> BacktestEngine" where
  "executeBuy_binary64 e bar reason' =
     (let commission' = commission_or_0 (config e);
          price = bar_c bar;
          quantity = of_int \<lfloor>binary64 (binary64 (capital e - commission') / price)\<rfloor>
      in if quantity \<le> 0 then e
         else
           let totalCost = binary64 (binary64 (quantity * price) + commission')
           in e\<lparr>capital := binary64 (capital e - totalCost),
                position := binary64 (position e + quantity),
                trades := trades e @
                  [\<lparr>trade_timestamp = bar_t bar, trade_action = buy,
                    trade_symbol = symbol (config e), trade_quantity = quantity,
                    trade_price = price, trade_value = totalCost,
                    trade_reason = reason_or_default reason'\<rparr>]\<rparr>)"

text \<open>A fresh engine with an initial capital of 1000 and a commission of 1, and a bar
  that closes at 5.4, which as a binary64 is \<open>3039929748475085 / 2^49\<close>.\<close>

definition overspend_engine :: BacktestEngine where
  "overspend_engine =
     new_BacktestEngine
       \<lparr>symbol = ''X'', startDate = ''2024-01-01'', endDate = ''2024-01-03'',
        initialCapital = 1000, strategy = stub_strategy, commission = Some 1\<rparr>"

definition overspend_bar :: Bar where
  "overspend_bar = mkbar ''d0'' (binary64 (27 / 5))"

section \<open>Indicators and the SMA crossover strategy\<close>

lemma and_then_Inr [simp]: "and_then (Inr x) f = f x"
  by (simp add: and_then_def)

lemma and_then_Inl [simp]: "and_then (Inl e) f = Inl e"
  by (simp add: and_then_def)

lemma bar_at_in_range:
  "0 \<le> i \<Longrightarrow> i < int (length bars) \<Longrightarrow> bar_at bars i = Inr (bars ! nat i)"
  by (simp add: bar_at_def)



lemma rsi_loop_sum:
  "\<forall>i\<in>set is. 1 \<le> i \<and> i < int (length bars) \<Longrightarrow>
   rsi_loop bars is (g, l) =
     Inr (g + (\<Sum>i\<leftarrow>is. if close_change bars i > 0 then close_change bars i else 0),
          l + (\<Sum>i\<leftarrow>is. if close_change bars i > 0 then 0 else \<bar>close_change bars i\<bar>))"
proof (induction "is" arbitrary: g l)
  case Nil
  then show ?case by simp
next
  case (Cons i "is")
  then have i: "1 \<le> i" "i < int (length bars)" by simp_all
  then have b: "bar_at bars i = Inr (bars ! nat i)"
    "bar_at bars (i - 1) = Inr (bars ! nat (i - 1))"
    by (simp_all add: bar_at_in_range)
  from Cons show ?case
    by (simp add: b close_change_def Let_def)
qed

text \<open>
  Claim C6.  \<^verbatim>\<open>calculateRSI\<close> returns the neutral value 50 when \<open>endIndex < period\<close>.
  Otherwise, for a positive period and an end index inside the bars, it returns 100 when
  the average loss over the trailing \<open>period\<close> close-to-close changes is 0, and
  \<open>100 - 100 / (1 + avgGain / avgLoss)\<close> otherwise, the averages being simple ones.
\<close>

theorem calculateRSI_spec:
  "(endIndex < period \<longrightarrow> calculateRSI bars period endIndex = Inr 50) \<and>
   (0 < period \<and> period \<le> endIndex \<and> endIndex < int (length bars) \<longrightarrow>
      calculateRSI bars period endIndex =
        Inr (if average_loss bars period endIndex = 0 then 100
             else 100 - 100 / (1 + average_gain bars period endIndex
                                      / average_loss bars period endIndex)))"
proof (intro conjI impI)
  assume "endIndex < period"
  then show "calculateRSI bars period endIndex = Inr 50"
    by (simp add: calculateRSI_def)
next
  assume a: "0 < period \<and> period \<le> endIndex \<and> endIndex < int (length bars)"
  then have "\<forall>i\<in>set [endIndex - period + 1 .. endIndex]. 1 \<le> i \<and> i < int (length bars)"
    by auto
  from rsi_loop_sum [OF this, of 0 0] a
  show "calculateRSI bars period endIndex =
        Inr (if average_loss bars period endIndex = 0 then 100
             else 100 - 100 / (1 + average_gain bars period endIndex
                                      / average_loss bars period endIndex))"
    by (simp add: calculateRSI_def average_loss_def average_gain_def Let_def)
qed

theorem calculateRSI_spec_witness:
  "(1::int) < 2 \<and> calculateRSI bars_10_9_8_14 2 1 = Inr 50 \<and>
   (0::int) < 2 \<and> (2::int) \<le> 3 \<and> 3 < int (length bars_10_9_8_14) \<and>
   average_loss bars_10_9_8_14 2 3 = 1 / 2 \<and> average_gain bars_10_9_8_14 2 3 = 3 \<and>
   calculateRSI bars_10_9_8_14 2 3 = Inr (600 / 7)"
proof -
  have l: "average_loss bars_10_9_8_14 2 3 = 1 / 2"
    by (simp add: average_loss_def close_change_def bars_10_9_8_14_def mkbar_def upto_rec1)
  have g: "average_gain bars_10_9_8_14 2 3 = 3"
    by (simp add: average_gain_def close_change_def bars_10_9_8_14_def mkbar_def upto_rec1)
  have n: "length bars_10_9_8_14 = 4"
    by (simp add: bars_10_9_8_14_def)
  from calculateRSI_spec [of 1 2 bars_10_9_8_14] calculateRSI_spec [of 3 2 bars_10_9_8_14]
    l g n show ?thesis
    by simp
qed



section \<open>The trade policy of one bar\<close>

lemma quantity_pos_iff: "(0::real) < of_int n \<longleftrightarrow> 1 \<le> (of_int n :: real)"
  by (simp add: int_one_le_iff_zero_less)

lemma executeBuy_cases:
  "executeBuy e bar None =
     (if 1 \<le> fill_quantity e bar
      then e\<lparr>capital := capital e - (fill_quantity e bar * bar_c bar + commission_or_0 (config e)),
             position := position e + fill_quantity e bar,
             trades := trades e @ [buy_trade e bar]\<rparr>
      else e)"
proof -
  have "fill_quantity e bar \<le> 0 \<longleftrightarrow> \<not> 1 \<le> fill_quantity e bar"
    unfolding fill_quantity_def using quantity_pos_iff by (simp add: not_le)
  then show ?thesis
    by (simp add: executeBuy_def fill_quantity_def buy_trade_def Let_def reason_or_default_def)
qed

lemma executeSell_cases:
  "executeSell e bar why =
     (if 0 < position e
      then e\<lparr>capital := capital e + (position e * bar_c bar - commission_or_0 (config e)),
             position := 0,
             trades := trades e @ [sell_trade e bar (reason_or_default why)]\<rparr>
      else e)"
  by (simp add: executeSell_def sell_trade_def Let_def not_less)



section \<open>Invariants of the loop over the bars\<close>

lemma run_loop_snoc:
  "run_loop bars (xs @ [i]) st = and_then (run_loop bars xs st) (run_step bars i)"
  by (induction xs arbitrary: st) (auto split: sum.splits)

lemma state_before_0: "state_before cfg bars 0 = Inr (new_BacktestEngine cfg, initialCapital cfg, 0)"
  by (simp add: state_before_def)

lemma state_before_Suc:
  "state_before cfg bars (Suc n) = and_then (state_before cfg bars n) (run_step bars n)"
  by (simp add: state_before_def run_loop_snoc)

lemma after_point_simps [simp]:
  "config (after_point e peak bar) = config e"
  "capital (after_point e peak bar) = capital e"
  "position (after_point e peak bar) = position e"
  "trades (after_point e peak bar) = trades e"
  "equityCurve (after_point e peak bar) = equityCurve e @ [equity_point e peak bar]"
  by (simp_all add: after_point_def)

lemma run_step_eq:
  "run_step bars i (e, pk, dd) =
     and_then (analyze (strategy (config e)) bars (int i)) (\<lambda>signal.
       Inr (if action signal = buy \<and> position e = 0 \<and> confidence signal > 0.5
            then executeBuy (after_point e pk (bars ! i)) (bars ! i) None
            else if action signal = sell \<and> position e > 0 \<and> confidence signal > 0.5
            then executeSell (after_point e pk (bars ! i)) (bars ! i) None
            else after_point e pk (bars ! i),
            max pk (capital e + position e * bar_c (bars ! i)),
            max dd (drawdown (equity_point e pk (bars ! i)))))"
proof -
  have peak: "(if x > pk then x else pk) = max pk x" for x :: real
    by (simp add: max_def)
  show ?thesis
    by (cases "analyze (strategy (config e)) bars (int i)")
      (simp_all add: run_step_def Let_def after_point_def equity_point_def peak)
qed

lemma run_step_elim:
  assumes "run_step bars i (e, pk, dd) = Inr (e', pk', dd')"
  obtains signal where "analyze (strategy (config e)) bars (int i) = Inr signal"
    and "e' = (if action signal = buy \<and> position e = 0 \<and> confidence signal > 0.5
            then executeBuy (after_point e pk (bars ! i)) (bars ! i) None
            else if action signal = sell \<and> position e > 0 \<and> confidence signal > 0.5
            then executeSell (after_point e pk (bars ! i)) (bars ! i) None
            else after_point e pk (bars ! i))"
    and "pk' = max pk (capital e + position e * bar_c (bars ! i))"
proof -
  from assms obtain signal where a: "analyze (strategy (config e)) bars (int i) = Inr signal"
    unfolding run_step_eq by (cases "analyze (strategy (config e)) bars (int i)") simp_all
  from assms show thesis
    unfolding run_step_eq a by (intro that [OF a]) simp_all
qed

lemma run_step_facts:
  assumes "run_step bars i (e, pk, dd) = Inr (e', pk', dd')"
  shows "config e' = config e"
    and "equityCurve e' = equityCurve e @ [equity_point e pk (bars ! i)]"
    and "pk' = max pk (capital e + position e * bar_c (bars ! i))"
    and "0 \<le> position e \<Longrightarrow> 0 \<le> position e'"
    and "trades e' = [] \<Longrightarrow> trades e = [] \<and> capital e' = capital e \<and> position e' = position e"
    and "\<exists>signal. analyze (strategy (config e)) bars (int i) = Inr signal"
proof -
  from assms obtain signal where a: "analyze (strategy (config e)) bars (int i) = Inr signal"
    and e': "e' = (if action signal = buy \<and> position e = 0 \<and> confidence signal > 0.5
            then executeBuy (after_point e pk (bars ! i)) (bars ! i) None
            else if action signal = sell \<and> position e > 0 \<and> confidence signal > 0.5
            then executeSell (after_point e pk (bars ! i)) (bars ! i) None
            else after_point e pk (bars ! i))"
    and pk': "pk' = max pk (capital e + position e * bar_c (bars ! i))"
    by (rule run_step_elim)
  show "config e' = config e" "equityCurve e' = equityCurve e @ [equity_point e pk (bars ! i)]"
    unfolding e' by (simp_all add: executeBuy_cases executeSell_cases)
  show "pk' = max pk (capital e + position e * bar_c (bars ! i))" by (rule pk')
  show "0 \<le> position e'" if "0 \<le> position e"
    using that unfolding e' by (simp add: executeBuy_cases executeSell_cases fill_quantity_def)
  show "trades e = [] \<and> capital e' = capital e \<and> position e' = position e" if "trades e' = []"
    using that unfolding e' by (simp add: executeBuy_cases executeSell_cases split: if_splits)
  from a show "\<exists>signal. analyze (strategy (config e)) bars (int i) = Inr signal" by blast
qed

lemma run_step_trade:
  assumes "run_step bars i (e, pk, dd) = Inr (e', pk', dd')" and "trades e' \<noteq> trades e"
  shows "trade_action (last (trades e')) = buy \<Longrightarrow>
           position e = 0 \<and> 1 \<le> fill_quantity e (bars ! i) \<and>
           e' = executeBuy (after_point e pk (bars ! i)) (bars ! i) None"
    and "trade_action (last (trades e')) = sell \<Longrightarrow>
           0 < position e \<and> e' = executeSell (after_point e pk (bars ! i)) (bars ! i) None"
proof -
  from assms(1) obtain signal :: StrategySignal where
    e': "e' = (if action signal = buy \<and> position e = 0 \<and> confidence signal > 0.5
            then executeBuy (after_point e pk (bars ! i)) (bars ! i) None
            else if action signal = sell \<and> position e > 0 \<and> confidence signal > 0.5
            then executeSell (after_point e pk (bars ! i)) (bars ! i) None
            else after_point e pk (bars ! i))"
    by (rule run_step_elim) blast
  have q: "fill_quantity (after_point e pk (bars ! i)) (bars ! i) = fill_quantity e (bars ! i)"
    by (simp add: fill_quantity_def)
  show "position e = 0 \<and> 1 \<le> fill_quantity e (bars ! i) \<and>
           e' = executeBuy (after_point e pk (bars ! i)) (bars ! i) None"
    if "trade_action (last (trades e')) = buy"
    using that assms(2) unfolding e'
    by (simp add: executeBuy_cases executeSell_cases q buy_trade_def sell_trade_def
        split: if_splits)
  show "0 < position e \<and> e' = executeSell (after_point e pk (bars ! i)) (bars ! i) None"
    if "trade_action (last (trades e')) = sell"
    using that assms(2) unfolding e'
    by (simp add: executeBuy_cases executeSell_cases q buy_trade_def sell_trade_def
        split: if_splits)
qed

lemma state_before_prefix:
  "state_before cfg bars n = Inr st \<Longrightarrow> j \<le> n \<Longrightarrow> \<exists>st'. state_before cfg bars j = Inr st'"
proof (induction n arbitrary: st)
  case 0
  then show ?case by blast
next
  case (Suc n)
  show ?case
  proof (cases "j = Suc n")
    case True
    with Suc.prems show ?thesis by blast
  next
    case False
    with Suc.prems have j: "j \<le> n" by simp
    from Suc.prems(1) obtain st0 where "state_before cfg bars n = Inr st0"
      by (auto simp add: state_before_Suc and_then_def split: sum.splits)
    from Suc.IH [OF this j] show ?thesis .
  qed
qed

lemma state_before_invariant:
  "state_before cfg bars n = Inr (e, pk, dd) \<Longrightarrow>
     config e = cfg \<and> 0 \<le> position e \<and> length (equityCurve e) = n \<and>
     (trades e = [] \<longrightarrow> capital e = initialCapital cfg \<and> position e = 0) \<and>
     pk = Max (insert (initialCapital cfg) (equity ` set (equityCurve e)))"
proof (induction n arbitrary: e pk dd)
  case 0
  then show ?case by (auto simp add: state_before_0 new_BacktestEngine_def)
next
  case (Suc n)
  from Suc.prems obtain e0 pk0 dd0 where
    s0: "state_before cfg bars n = Inr (e0, pk0, dd0)" and
    st: "run_step bars n (e0, pk0, dd0) = Inr (e, pk, dd)"
    by (auto simp add: state_before_Suc and_then_def split: sum.splits)
  note ih = Suc.IH [OF s0]
  note f = run_step_facts [OF st]
  have "Max (insert (initialCapital cfg) (equity ` set (equityCurve e)))
      = max (capital e0 + position e0 * bar_c (bars ! n))
            (Max (insert (initialCapital cfg) (equity ` set (equityCurve e0))))"
    using Max_insert [of "insert (initialCapital cfg) (equity ` set (equityCurve e0))"
        "capital e0 + position e0 * bar_c (bars ! n)"]
    by (simp add: f(2) equity_point_def insert_commute)
  with ih f show ?case
    by (auto simp add: max.commute)
qed

lemma generateReport_eq:
  "generateReport maxargs e =
     (if maxargs < length (equityCurve e) then Inl RangeError else Inr (report_of e))"
  by (simp add: generateReport_def report_of_def Math_max_def Let_def)

lemma run_eq:
  assumes "bars \<noteq> []"
  shows "run maxargs e bars =
     and_then (call_initialize (strategy (config e))) (\<lambda>_.
     and_then (run_loop bars [0..<length bars] (e, initialCapital (config e), 0))
       (\<lambda>(e', pk, dd).
          and_then
            (generateReport maxargs
               (if position e' > 0
                then executeSell e' (last bars) (Some ''End of backtest'') else e'))
            (\<lambda>report.
               Inr (report,
                    if position e' > 0
                    then executeSell e' (last bars) (Some ''End of backtest'') else e'))))"
proof -
  from assms have l: "bars ! (length bars - 1) = last bars"
    by (simp add: last_conv_nth)
  from assms show ?thesis
    unfolding run_def l by (simp add: Let_def split_def)
qed

lemma run_fresh_Inr:
  assumes "run maxargs (new_BacktestEngine cfg) bars = Inr (r, e'')"
  shows "bars \<noteq> []"
    and "\<exists>e' pk dd. state_before cfg bars (length bars) = Inr (e', pk, dd) \<and>
           e'' = (if position e' > 0
                  then executeSell e' (last bars) (Some ''End of backtest'') else e') \<and>
           r = report_of e'' \<and> generateReport maxargs e'' = Inr r"
proof -
  from assms show ne: "bars \<noteq> []"
    by (auto simp add: run_def split: if_splits)
  have c: "initialCapital (config (new_BacktestEngine cfg)) = initialCapital cfg"
    by (simp add: new_BacktestEngine_def)
  note r1 = assms [unfolded run_eq [OF ne] c]
  from r1 obtain u where i: "call_initialize (strategy (config (new_BacktestEngine cfg))) = Inr u"
    by (cases "call_initialize (strategy (config (new_BacktestEngine cfg)))") simp_all
  from r1 i obtain st where
    st: "run_loop bars [0..<length bars] (new_BacktestEngine cfg, initialCapital cfg, 0) = Inr st"
    by (cases "run_loop bars [0..<length bars]
                 (new_BacktestEngine cfg, initialCapital cfg, 0)") simp_all
  obtain e' pk dd where st': "st = (e', pk, dd)" by (cases st)
  let ?e = "if position e' > 0
            then executeSell e' (last bars) (Some ''End of backtest'') else e'"
  from r1 i st st' have res:
    "and_then (generateReport maxargs ?e) (\<lambda>report. Inr (report, ?e)) = Inr (r, e'')"
    by simp
  then have g: "generateReport maxargs ?e = Inr r" and e: "e'' = ?e"
    by (cases "generateReport maxargs ?e"; simp)+
  from g have "r = report_of ?e"
    by (simp add: generateReport_eq split: if_splits)
  with st st' g e show "\<exists>e' pk dd. state_before cfg bars (length bars) = Inr (e', pk, dd) \<and>
           e'' = (if position e' > 0
                  then executeSell e' (last bars) (Some ''End of backtest'') else e') \<and>
           r = report_of e'' \<and> generateReport maxargs e'' = Inr r"
    by (simp add: state_before_def)
qed

lemma curve_points:
  "state_before cfg bars n = Inr (e, pk, dd) \<Longrightarrow> j < n \<Longrightarrow>
     \<exists>ej pkj ddj. state_before cfg bars j = Inr (ej, pkj, ddj) \<and>
        equityCurve e ! j = equity_point ej pkj (bars ! j) \<and>
        take j (equityCurve e) = equityCurve ej"
proof (induction n arbitrary: e pk dd)
  case 0
  then show ?case by simp
next
  case (Suc n)
  from Suc.prems(1) obtain e0 pk0 dd0 where
    s0: "state_before cfg bars n = Inr (e0, pk0, dd0)" and
    st: "run_step bars n (e0, pk0, dd0) = Inr (e, pk, dd)"
    by (auto simp add: state_before_Suc and_then_def split: sum.splits)
  have len: "length (equityCurve e0) = n"
    using state_before_invariant [OF s0] by simp
  have app: "equityCurve e = equityCurve e0 @ [equity_point e0 pk0 (bars ! n)]"
    using run_step_facts(2) [OF st] .
  show ?case
  proof (cases "j = n")
    case True
    with s0 len app show ?thesis by (simp add: nth_append)
  next
    case False
    with Suc.prems(2) have j: "j < n" by simp
    from Suc.IH [OF s0 j] obtain ej pkj ddj where
      "state_before cfg bars j = Inr (ej, pkj, ddj)"
      "equityCurve e0 ! j = equity_point ej pkj (bars ! j)"
      "take j (equityCurve e0) = equityCurve ej"
      by blast
    with j len app show ?thesis by (simp add: nth_append)
  qed
qed

lemma executeSell_curve [simp]: "equityCurve (executeSell e bar why) = equityCurve e"
  by (simp add: executeSell_cases)

lemma executeSell_config [simp]: "config (executeSell e bar why) = config e"
  by (simp add: executeSell_cases)

lemma report_of_fields [simp]:
  "equity_curve (report_of e) = equityCurve e"
  "result_trades (report_of e) = trades e"
  "final_capital (report_of e) = capital e + position e * last_trade_price (trades e)"
  "max_drawdown (report_of e) = greatest (map drawdown (equityCurve e))"
  by (simp_all add: report_of_def generateReport_def Math_max_def Let_def)

lemma greatest_Max: "xs \<noteq> [] \<Longrightarrow> greatest xs = Max (set xs)"
  by (induction xs rule: greatest.induct) simp_all

section \<open>Close-out, equity curve and maximum drawdown of a run\<close>

text \<open>
  Claim C2.  For a run on a fresh engine that returns (so the bars are not empty), with
  non-zero closes: when the position is still positive after the last iteration, the
  engine sells the whole position at the last bar's close with the reason
  \<^verbatim>\<open>End of backtest\<close>; otherwise it leaves the state as it is.  Either way the position
  is 0 when the report is built, \<open>final_capital\<close> is the recomputed
  \<open>cash + position * lastTradePrice\<close>, which is the cash, and with no trade at all it is
  the initial capital.
\<close>

theorem end_of_run_close_out:
  assumes "run maxargs (new_BacktestEngine cfg) bars = Inr (r, e'')"
    and "\<forall>b\<in>set bars. bar_c b \<noteq> 0"
  shows "\<exists>e' pk dd. state_before cfg bars (length bars) = Inr (e', pk, dd) \<and>
     (0 < position e' \<longrightarrow>
        trades e'' = trades e' @ [sell_trade e' (last bars) ''End of backtest''] \<and>
        capital e'' = capital e' + (position e' * bar_c (last bars) - commission_or_0 cfg)) \<and>
     (\<not> 0 < position e' \<longrightarrow> e'' = e') \<and>
     position e'' = 0 \<and>
     generateReport maxargs e'' = Inr r \<and>
     final_capital r = capital e'' + position e'' * last_trade_price (trades e'') \<and>
     final_capital r = capital e'' \<and>
     (trades e'' = [] \<longrightarrow> final_capital r = initialCapital cfg)"
proof -
  from run_fresh_Inr(2) [OF assms(1)] obtain e' pk dd where
    s: "state_before cfg bars (length bars) = Inr (e', pk, dd)" and
    e'': "e'' = (if position e' > 0
                 then executeSell e' (last bars) (Some ''End of backtest'') else e')" and
    r: "r = report_of e''" and g: "generateReport maxargs e'' = Inr r"
    by blast
  note inv = state_before_invariant [OF s]
  have p0: "position e'' = 0"
    using inv e'' by (auto simp add: executeSell_cases)
  have t: "trades e'' = [] \<longrightarrow> capital e'' = initialCapital cfg"
    using inv e'' by (auto simp add: executeSell_cases)
  from s e'' r g inv p0 t show ?thesis
    by (auto simp add: executeSell_cases reason_or_default_def)
qed

text \<open>
  Claim C3.  For a run on a fresh engine that returns (so the bars are not empty), the
  equity curve has one point per bar.  With non-zero closes and a positive initial capital,
  point \<open>i\<close> carries the bar's timestamp, its equity is \<open>cash + position * close[i]\<close> in
  the state the loop has reached before bar \<open>i\<close> trades, and its drawdown is
  \<open>(peak - equity) / peak\<close> with \<open>peak\<close> the maximum of the equities recorded so far.
\<close>

theorem equity_curve_per_bar:
  assumes "run maxargs (new_BacktestEngine cfg) bars = Inr (r, e'')"
  shows "length (equity_curve r) = length bars \<and>
     ((\<forall>b\<in>set bars. bar_c b \<noteq> 0) \<and> 0 < initialCapital cfg \<longrightarrow>
      (\<forall>i<length bars. \<exists>e pk dd. state_before cfg bars i = Inr (e, pk, dd) \<and>
        point_timestamp (equity_curve r ! i) = bar_t (bars ! i) \<and>
        equity (equity_curve r ! i) = capital e + position e * bar_c (bars ! i) \<and>
        drawdown (equity_curve r ! i) =
          (running_peak (equity_curve r) i - equity (equity_curve r ! i))
            / running_peak (equity_curve r) i))"
proof -
  from run_fresh_Inr(2) [OF assms(1)] obtain e' pk dd where
    s: "state_before cfg bars (length bars) = Inr (e', pk, dd)" and
    e'': "e'' = (if position e' > 0
                 then executeSell e' (last bars) (Some ''End of backtest'') else e')" and
    r: "r = report_of e''" and g: "generateReport maxargs e'' = Inr r"
    by blast
  have curve: "equity_curve r = equityCurve e'"
    using e'' r by simp
  have len: "length (equityCurve e') = length bars"
    using state_before_invariant [OF s] by simp
  have ne: "bars \<noteq> []" using run_fresh_Inr(1) [OF assms(1)] .
  have first: "equity (equityCurve e' ! 0) = initialCapital cfg"
  proof -
    from ne have "0 < length bars" by simp
    from curve_points [OF s this] show ?thesis
      by (auto simp add: state_before_0 equity_point_def new_BacktestEngine_def)
  qed
  have point: "\<exists>e pk dd. state_before cfg bars i = Inr (e, pk, dd) \<and>
        point_timestamp (equityCurve e' ! i) = bar_t (bars ! i) \<and>
        equity (equityCurve e' ! i) = capital e + position e * bar_c (bars ! i) \<and>
        drawdown (equityCurve e' ! i) =
          (running_peak (equityCurve e') i - equity (equityCurve e' ! i))
            / running_peak (equityCurve e') i" if i: "i < length bars" for i
  proof -
    from curve_points [OF s i] obtain ei pki ddi where
      si: "state_before cfg bars i = Inr (ei, pki, ddi)" and
      pt: "equityCurve e' ! i = equity_point ei pki (bars ! i)" and
      tk: "take i (equityCurve e') = equityCurve ei"
      by blast
    have pki: "pki = Max (insert (initialCapital cfg) (equity ` set (equityCurve ei)))"
      using state_before_invariant [OF si] by simp
    have tks: "take (Suc i) (equityCurve e') = equityCurve ei @ [equityCurve e' ! i]"
      using i len tk by (simp add: take_Suc_conv_app_nth)
    have mem: "initialCapital cfg \<in> equity ` set (take (Suc i) (equityCurve e'))"
    proof -
      have "equityCurve e' ! 0 \<in> set (take (Suc i) (equityCurve e'))"
        using i len by (simp add: in_set_conv_nth) (metis nth_take zero_less_Suc less_Suc_eq_0_disj)
      with first show ?thesis by force
    qed
    have "running_peak (equityCurve e') i
        = Max (insert (initialCapital cfg) (equity ` set (take (Suc i) (equityCurve e'))))"
      using mem by (simp add: running_peak_def insert_absorb)
    also have "\<dots> = max pki (capital ei + position ei * bar_c (bars ! i))"
      using Max_insert [of "insert (initialCapital cfg) (equity ` set (equityCurve ei))"
          "capital ei + position ei * bar_c (bars ! i)"]
      by (simp add: tks pt pki equity_point_def insert_commute max.commute)
    finally have rp: "running_peak (equityCurve e') i
        = max pki (capital ei + position ei * bar_c (bars ! i))" .
    from si pt rp show ?thesis
      by (simp add: equity_point_def)
  qed
  from len curve point show ?thesis by simp
qed

text \<open>
  Claim C7.  For a run on a fresh engine that returns, with non-zero closes and a positive
  initial capital: \<open>max_drawdown\<close> is at least every drawdown recorded in the equity curve,
  it is the maximum of these values and is attained by one of them, and it does not depend
  on the trade log.
\<close>

theorem max_drawdown_is_maximum:
  assumes "run maxargs (new_BacktestEngine cfg) bars = Inr (r, e'')"
    and "\<forall>b\<in>set bars. bar_c b \<noteq> 0"
    and "0 < initialCapital cfg"
  shows "(\<forall>p\<in>set (equity_curve r). drawdown p \<le> max_drawdown r) \<and>
     max_drawdown r = Max (drawdown ` set (equity_curve r)) \<and>
     (\<exists>p\<in>set (equity_curve r). max_drawdown r = drawdown p) \<and>
     (\<forall>ts. map_sum id max_drawdown (generateReport maxargs (e''\<lparr>trades := ts\<rparr>))
             = Inr (max_drawdown r))"
proof -
  from run_fresh_Inr(2) [OF assms(1)] obtain e' pk dd where
    s: "state_before cfg bars (length bars) = Inr (e', pk, dd)" and
    e'': "e'' = (if position e' > 0
                 then executeSell e' (last bars) (Some ''End of backtest'') else e')" and
    r: "r = report_of e''" and g: "generateReport maxargs e'' = Inr r"
    by blast
  have curve: "equity_curve r = equityCurve e''" "equityCurve e'' = equityCurve e'"
    using e'' r by simp_all
  have "length (equityCurve e') = length bars"
    using state_before_invariant [OF s] by simp
  with run_fresh_Inr(1) [OF assms(1)] have ne: "map drawdown (equityCurve e'') \<noteq> []"
    using curve by auto
  have m: "max_drawdown r = Max (drawdown ` set (equity_curve r))"
    using greatest_Max [OF ne] r curve by simp
  have fin: "finite (drawdown ` set (equity_curve r))" "drawdown ` set (equity_curve r) \<noteq> {}"
    using ne curve by auto
  have ind: "\<forall>ts. map_sum id max_drawdown (generateReport maxargs (e''\<lparr>trades := ts\<rparr>))
                   = Inr (max_drawdown r)"
    using g r by (simp add: generateReport_eq split: if_splits)
  from Max_in [OF fin] Max_ge [OF fin(1)] m ind show ?thesis
    by auto
qed

lemmas stub_defs = stub_config_def stub_strategy_def new_BacktestEngine_def mkbar_def
  bar_at_def run_step_def executeBuy_def executeSell_def commission_or_0_def
  reason_or_default_def Let_def

lemma stub_loop_3:
  "state_before stub_config bars_100_80_120 3 = Inr (stub_final, 1200, 1 / 5)"
  by (simp add: state_before_def bars_100_80_120_def stub_final_def stub_trades_def upt_rec
      stub_defs)

lemma run_fresh_eq:
  assumes "bars \<noteq> []" and "state_before cfg bars (length bars) = Inr (e', pk, dd)"
    and "call_initialize (strategy cfg) = Inr ()" and "length bars \<le> maxargs"
  shows "run maxargs (new_BacktestEngine cfg) bars =
     Inr (report_of (if position e' > 0
                          then executeSell e' (last bars) (Some ''End of backtest'') else e'),
          if position e' > 0
          then executeSell e' (last bars) (Some ''End of backtest'') else e')"
proof -
  have c: "initialCapital (config (new_BacktestEngine cfg)) = initialCapital cfg"
    "strategy (config (new_BacktestEngine cfg)) = strategy cfg"
    by (simp_all add: new_BacktestEngine_def)
  have n: "length (equityCurve e') = length bars"
    using state_before_invariant [OF assms(2)] by simp
  from assms n show ?thesis
    unfolding run_eq [OF assms(1)] c state_before_def
    by (simp add: generateReport_eq)
qed

lemma stub_initialize: "call_initialize (strategy stub_config) = Inr ()"
  by (simp add: call_initialize_def stub_config_def stub_strategy_def)

lemma stub_run_3:
  "run 100000 (new_BacktestEngine stub_config) bars_100_80_120
     = Inr (report_of stub_final, stub_final)"
proof -
  have "length bars_100_80_120 = 3" "bars_100_80_120 \<noteq> []" "position stub_final = 0"
    by (simp_all add: bars_100_80_120_def stub_final_def)
  with run_fresh_eq [of bars_100_80_120 stub_config stub_final 1200 "1 / 5" 100000]
    stub_loop_3 stub_initialize
  show ?thesis by simp
qed

lemma stub_loop_2:
  "state_before stub_config bars_100_120 2 = Inr (stub_open, 1200, 0)"
  by (simp add: state_before_def bars_100_120_def stub_open_def stub_trades_def upt_rec
      stub_defs)

lemma stub_run_2:
  "run 100000 (new_BacktestEngine stub_config) bars_100_120
     = Inr (report_of stub_closed, stub_closed)"
proof -
  have "length bars_100_120 = 2" "bars_100_120 \<noteq> []" "position stub_open = 10"
    "executeSell stub_open (last bars_100_120) (Some ''End of backtest'') = stub_closed"
    by (simp_all add: bars_100_120_def stub_open_def stub_closed_def stub_trades_def
        executeSell_def Let_def commission_or_0_def stub_config_def reason_or_default_def mkbar_def)
  with run_fresh_eq [of bars_100_120 stub_config stub_open 1200 0 100000]
    stub_loop_2 stub_initialize
  show ?thesis by simp
qed

theorem end_of_run_close_out_witness:
  "run 100000 (new_BacktestEngine stub_config) bars_100_120
     = Inr (report_of stub_closed, stub_closed) \<and>
   list_all (\<lambda>b. bar_c b \<noteq> 0) bars_100_120 \<and>
   state_before stub_config bars_100_120 (length bars_100_120) = Inr (stub_open, 1200, 0) \<and>
   0 < position stub_open \<and>
   trades stub_closed = trades stub_open @ [sell_trade stub_open (last bars_100_120) ''End of backtest''] \<and>
   position stub_closed = 0 \<and>
   final_capital (report_of stub_closed) = 1200"
proof -
  have c: "\<forall>b\<in>set bars_100_120. bar_c b \<noteq> 0"
    by (simp add: bars_100_120_def mkbar_def)
  have n: "length bars_100_120 = 2"
    by (simp add: bars_100_120_def)
  have p: "position stub_open = 10" "capital stub_closed = 1200"
    by (simp_all add: stub_open_def stub_closed_def)
  from end_of_run_close_out [OF stub_run_2 c] stub_loop_2 stub_run_2 c n p
  show ?thesis
    by (simp add: list_all_iff)
qed

theorem equity_curve_per_bar_witness:
  "run 100000 (new_BacktestEngine stub_config) bars_100_80_120
     = Inr (report_of stub_final, stub_final) \<and>
   list_all (\<lambda>b. bar_c b \<noteq> 0) bars_100_80_120 \<and>
   0 < initialCapital stub_config \<and>
   length (equity_curve (report_of stub_final)) = length bars_100_80_120 \<and>
   (\<exists>e pk dd. state_before stub_config bars_100_80_120 1 = Inr (e, pk, dd) \<and>
      equity (equity_curve (report_of stub_final) ! 1)
        = capital e + position e * bar_c (bars_100_80_120 ! 1) \<and>
      drawdown (equity_curve (report_of stub_final) ! 1)
        = (running_peak (equity_curve (report_of stub_final)) 1
             - equity (equity_curve (report_of stub_final) ! 1))
          / running_peak (equity_curve (report_of stub_final)) 1) \<and>
   equity (equity_curve (report_of stub_final) ! 1) = 800 \<and>
   running_peak (equity_curve (report_of stub_final)) 1 = 1000 \<and>
   drawdown (equity_curve (report_of stub_final) ! 1) = 1 / 5"
proof -
  have c: "\<forall>b\<in>set bars_100_80_120. bar_c b \<noteq> 0"
    by (simp add: bars_100_80_120_def mkbar_def)
  have k: "0 < initialCapital stub_config"
    by (simp add: stub_config_def)
  have n: "length bars_100_80_120 = 3"
    by (simp add: bars_100_80_120_def)
  have v: "equity (equity_curve (report_of stub_final) ! 1) = 800"
    "running_peak (equity_curve (report_of stub_final)) 1 = 1000"
    "drawdown (equity_curve (report_of stub_final) ! 1) = 1 / 5"
    by (simp_all add: stub_final_def running_peak_def)
  from equity_curve_per_bar [OF stub_run_3] c k have
    "length (equity_curve (report_of stub_final)) = length bars_100_80_120"
    and "\<exists>e pk dd. state_before stub_config bars_100_80_120 1 = Inr (e, pk, dd) \<and>
      point_timestamp (equity_curve (report_of stub_final) ! 1) = bar_t (bars_100_80_120 ! 1) \<and>
      equity (equity_curve (report_of stub_final) ! 1)
        = capital e + position e * bar_c (bars_100_80_120 ! 1) \<and>
      drawdown (equity_curve (report_of stub_final) ! 1)
        = (running_peak (equity_curve (report_of stub_final)) 1
             - equity (equity_curve (report_of stub_final) ! 1))
          / running_peak (equity_curve (report_of stub_final)) 1"
    using n by auto
  with stub_run_3 c k v show ?thesis
    by (simp only: list_all_iff) blast
qed

theorem max_drawdown_is_maximum_witness:
  "run 100000 (new_BacktestEngine stub_config) bars_100_80_120
     = Inr (report_of stub_final, stub_final) \<and>
   list_all (\<lambda>b. bar_c b \<noteq> 0) bars_100_80_120 \<and>
   0 < initialCapital stub_config \<and>
   map drawdown (equity_curve (report_of stub_final)) = [0, 1 / 5, 0] \<and>
   max_drawdown (report_of stub_final) = Max (drawdown ` set (equity_curve (report_of stub_final))) \<and>
   max_drawdown (report_of stub_final) = 1 / 5"
proof -
  have c: "\<forall>b\<in>set bars_100_80_120. bar_c b \<noteq> 0"
    by (simp add: bars_100_80_120_def mkbar_def)
  have k: "0 < initialCapital stub_config"
    by (simp add: stub_config_def)
  have d: "map drawdown (equity_curve (report_of stub_final)) = [0, 1 / 5, 0]"
    by (simp add: stub_final_def)
  have m: "Max (drawdown ` set (equity_curve (report_of stub_final))) = 1 / 5"
    by (simp add: stub_final_def)
  from max_drawdown_is_maximum [OF stub_run_3 c k] stub_run_3 c k d m show ?thesis
    by (simp add: list_all_iff)
qed

section \<open>The position never goes below 0\<close>

lemma fee_loop:
  "state_before fee_config bars_5_5_1 3 = Inr (fee_final, 10, 9 / 10)"
  by (simp add: state_before_def bars_5_5_1_def fee_final_def fee_config_def upt_rec
      stub_strategy_def new_BacktestEngine_def mkbar_def
  bar_at_def run_step_def executeBuy_def executeSell_def commission_or_0_def
  reason_or_default_def Let_def)

lemma fee_run:
  "run 100000 (new_BacktestEngine fee_config) bars_5_5_1 = Inr (report_of fee_final, fee_final)"
proof -
  have "length bars_5_5_1 = 3" "bars_5_5_1 \<noteq> []" "position fee_final = 0"
    by (simp_all add: bars_5_5_1_def fee_final_def)
  moreover have "call_initialize (strategy fee_config) = Inr ()"
    by (simp add: call_initialize_def fee_config_def stub_strategy_def)
  ultimately show ?thesis
    using run_fresh_eq [of bars_5_5_1 fee_config fee_final 10 "9 / 10" 100000] fee_loop
    by simp
qed

text \<open>
  Claim C10, amended.  With non-zero closes the position is at least 0 in every state the
  loop of a run on a fresh engine reaches, and after the close-out; a bar's buy starts
  from a flat position and leaves a positive one, a bar's sell starts from a positive
  position and leaves 0.  Cash has no lower bound.  Under sells the commission is taken
  from the proceeds: there is a run with positive closes, a commission of at least 0 and
  a positive initial capital that ends with negative cash.  Under buys the amount debited
  is the rounded \<^verbatim>\<open>quantity * price + commission\<close>, which the fill quantity keeps
  within the cash only up to the rounding of the source's arithmetic (section
  \<open>The cash a buy leaves\<close>), so nothing is stated here about the cash a buy leaves.
\<close>

theorem position_stays_nonnegative:
  "((\<forall>b\<in>set bars. bar_c b \<noteq> 0) \<and> n \<le> length bars \<and>
      state_before cfg bars n = Inr (e, pk, dd) \<longrightarrow> 0 \<le> position e) \<and>
   ((\<forall>b\<in>set bars. bar_c b \<noteq> 0) \<and> run maxargs (new_BacktestEngine cfg) bars = Inr (r, e'')
      \<longrightarrow> 0 \<le> position e'') \<and>
   (i < length bars \<and> bar_c (bars ! i) \<noteq> 0 \<and>
      run_step bars i (e1, pk1, dd1) = Inr (e1', pk1', dd1') \<and>
      trades e1' \<noteq> trades e1 \<and> trade_action (last (trades e1')) = buy
      \<longrightarrow> position e1 = 0 \<and> 0 < position e1') \<and>
   (i < length bars \<and> bar_c (bars ! i) \<noteq> 0 \<and>
      run_step bars i (e1, pk1, dd1) = Inr (e1', pk1', dd1') \<and>
      trades e1' \<noteq> trades e1 \<and> trade_action (last (trades e1')) = sell
      \<longrightarrow> 0 < position e1 \<and> position e1' = 0) \<and>
   (\<exists>cfg' bars' r' e'. (\<forall>b\<in>set bars'. 0 < bar_c b) \<and> 0 \<le> commission_or_0 cfg' \<and>
      0 < initialCapital cfg' \<and> run 100000 (new_BacktestEngine cfg') bars' = Inr (r', e') \<and>
      capital e' < 0)"
proof -
  have p1: "(\<forall>b\<in>set bars. bar_c b \<noteq> 0) \<and> n \<le> length bars \<and>
      state_before cfg bars n = Inr (e, pk, dd) \<longrightarrow> 0 \<le> position e"
    using state_before_invariant by blast
  have p2: "(\<forall>b\<in>set bars. bar_c b \<noteq> 0) \<and> run maxargs (new_BacktestEngine cfg) bars = Inr (r, e'')
      \<longrightarrow> 0 \<le> position e''"
  proof
    assume a: "(\<forall>b\<in>set bars. bar_c b \<noteq> 0) \<and> run maxargs (new_BacktestEngine cfg) bars = Inr (r, e'')"
    then obtain e' pk' dd' where
      s: "state_before cfg bars (length bars) = Inr (e', pk', dd')" and
      e'': "e'' = (if position e' > 0
                   then executeSell e' (last bars) (Some ''End of backtest'') else e')"
      using run_fresh_Inr(2) by blast
    from state_before_invariant [OF s] e'' show "0 \<le> position e''"
      by (auto simp add: executeSell_cases)
  qed
  have p3: "i < length bars \<and> bar_c (bars ! i) \<noteq> 0 \<and>
      run_step bars i (e1, pk1, dd1) = Inr (e1', pk1', dd1') \<and>
      trades e1' \<noteq> trades e1 \<and> trade_action (last (trades e1')) = buy
      \<longrightarrow> position e1 = 0 \<and> 0 < position e1'"
  proof
    assume a: "i < length bars \<and> bar_c (bars ! i) \<noteq> 0 \<and>
      run_step bars i (e1, pk1, dd1) = Inr (e1', pk1', dd1') \<and>
      trades e1' \<noteq> trades e1 \<and> trade_action (last (trades e1')) = buy"
    then have st: "run_step bars i (e1, pk1, dd1) = Inr (e1', pk1', dd1')"
      and ne: "trades e1' \<noteq> trades e1" and b: "trade_action (last (trades e1')) = buy"
      by simp_all
    from run_step_trade(1) [OF st ne b] show "position e1 = 0 \<and> 0 < position e1'"
      by (simp add: executeBuy_cases fill_quantity_def)
  qed
  have p4: "i < length bars \<and> bar_c (bars ! i) \<noteq> 0 \<and>
      run_step bars i (e1, pk1, dd1) = Inr (e1', pk1', dd1') \<and>
      trades e1' \<noteq> trades e1 \<and> trade_action (last (trades e1')) = sell
      \<longrightarrow> 0 < position e1 \<and> position e1' = 0"
  proof
    assume a: "i < length bars \<and> bar_c (bars ! i) \<noteq> 0 \<and>
      run_step bars i (e1, pk1, dd1) = Inr (e1', pk1', dd1') \<and>
      trades e1' \<noteq> trades e1 \<and> trade_action (last (trades e1')) = sell"
    then have st: "run_step bars i (e1, pk1, dd1) = Inr (e1', pk1', dd1')"
      and ne: "trades e1' \<noteq> trades e1" and b: "trade_action (last (trades e1')) = sell"
      by simp_all
    from run_step_trade(2) [OF st ne b] show "0 < position e1 \<and> position e1' = 0"
      by (simp add: executeSell_cases)
  qed
  have "(\<forall>b\<in>set bars_5_5_1. 0 < bar_c b) \<and> 0 \<le> commission_or_0 fee_config \<and>
      0 < initialCapital fee_config \<and> capital fee_final < 0"
    by (simp add: bars_5_5_1_def mkbar_def fee_config_def commission_or_0_def fee_final_def)
  with fee_run have p7: "\<exists>cfg' bars' r' e'. (\<forall>b\<in>set bars'. 0 < bar_c b) \<and>
      0 \<le> commission_or_0 cfg' \<and> 0 < initialCapital cfg' \<and>
      run 100000 (new_BacktestEngine cfg') bars' = Inr (r', e') \<and> capital e' < 0"
    by blast
  show ?thesis
    by (intro conjI) (fact p1 p2 p3 p4 p7)+
qed

theorem position_stays_nonnegative_witness:
  "list_all (\<lambda>b. bar_c b \<noteq> 0) bars_5_5_1 \<and>
   run 100000 (new_BacktestEngine fee_config) bars_5_5_1 = Inr (report_of fee_final, fee_final) \<and>
   0 \<le> position fee_final"
proof -
  have c: "\<forall>b\<in>set bars_5_5_1. bar_c b \<noteq> 0"
    by (simp add: bars_5_5_1_def mkbar_def)
  from position_stays_nonnegative [of bars_5_5_1 _ fee_config _ _ _ 100000
      "report_of fee_final" fee_final] fee_run c
  show ?thesis
    by (simp add: list_all_iff)
qed

section \<open>The cash a buy leaves\<close>

lemma ulp_small: "0 < x \<Longrightarrow> x < 2 ^ 52 \<Longrightarrow> ulp x = ulp (2 * x) / 2"
  by (subst ulp.simps) simp

lemma ulp_normal: "2 ^ 52 \<le> x \<Longrightarrow> x < 2 ^ 53 \<Longrightarrow> ulp x = 1"
  by (subst ulp.simps) simp

lemma ulp_large: "2 ^ 53 \<le> x \<Longrightarrow> ulp x = ulp (x / 2) * 2"
  by (subst ulp.simps) (simp add: not_le not_less)

text \<open>The rounding on familiar values: \<open>1/10\<close> is no binary64 and rounds to
  \<open>3602879701896397 / 2^55\<close>, the sum \<^verbatim>\<open>0.1 + 0.2\<close> is \<open>0.3\<close> rounded
  plus \<open>2^-54\<close>, integers beyond \<open>2^53\<close> round to even ones, and a tie goes to the even
  significand.\<close>

lemma binary64_examples:
  "binary64 (1 / 10) = 3602879701896397 / 2 ^ 55"
  "binary64 (binary64 (1 / 10) + binary64 (2 / 10)) = binary64 (3 / 10) + 1 / 2 ^ 54"
  "binary64 (2 ^ 53 + 1) = 2 ^ 53"
  "binary64 (2 ^ 53 + 3) = 2 ^ 53 + 4"
  "binary64 (1 / 2) = 1 / 2"
  "binary64 (- 3) = - 3"
  by (simp_all add: binary64_def round_half_even_def ulp_small ulp_normal ulp_large)

text \<open>Rounding keeps the sign: the significand of a positive number lies in
  \<open>[2^52, 2^53)\<close>, so a positive number rounds to a positive binary64.\<close>

lemma ulp_pos: "0 < ulp x"
proof (induction x rule: ulp.induct)
  case (1 x)
  show ?case
    by (subst ulp.simps) (use 1 in \<open>auto simp add: not_le not_less\<close>)
qed

lemma significand_range: "0 < x \<Longrightarrow> 2 ^ 52 \<le> x / ulp x \<and> x / ulp x < 2 ^ 53"
proof (induction x rule: ulp.induct)
  case (1 x)
  show ?case
  proof (cases "x < 2 ^ 52")
    case True
    with 1 have ih: "2 ^ 52 \<le> 2 * x / ulp (2 * x) \<and> 2 * x / ulp (2 * x) < 2 ^ 53" by simp
    have "ulp x = ulp (2 * x) / 2" using True 1 by (subst ulp.simps) simp
    then have "x / ulp x = 2 * x / ulp (2 * x)" by (simp only: divide_divide_eq_right mult.commute)
    with ih show ?thesis by (simp only:)
  next
    case False
    show ?thesis
    proof (cases "2 ^ 53 \<le> x")
      case True
      with 1 False have ih: "2 ^ 52 \<le> x / 2 / ulp (x / 2) \<and> x / 2 / ulp (x / 2) < 2 ^ 53"
        by simp
      have "ulp x = ulp (x / 2) * 2" using True False 1 by (subst ulp.simps) simp
      then have "x / ulp x = x / 2 / ulp (x / 2)"
        by (simp only: divide_divide_eq_left mult.commute)
      with ih show ?thesis by (simp only:)
    next
      case b: False
      with False 1 have "ulp x = 1" by (subst ulp.simps) simp
      then have "x / ulp x = x" by (simp only: div_by_1)
      with False b show ?thesis by (simp only: not_less not_le)
    qed
  qed
qed

lemma round_half_even_ge: "\<lfloor>y\<rfloor> \<le> round_half_even y"
  unfolding round_half_even_def Let_def by (simp only: split: if_split) simp

lemma binary64_pos: "0 < x \<Longrightarrow> 0 < binary64 x"
proof -
  assume x: "0 < x"
  have "(1::real) \<le> 2 ^ 52" by simp
  with significand_range [OF x] have "(1::real) \<le> x / ulp x" by linarith
  then have "1 \<le> \<lfloor>x / ulp x\<rfloor>" by (simp only: le_floor_iff of_int_1)
  with round_half_even_ge [of "x / ulp x"] have "0 < round_half_even (x / ulp x)" by linarith
  then have "(0::real) < of_int (round_half_even (x / ulp x))" by (simp only: of_int_0_less_iff)
  then have "0 < of_int (round_half_even (x / ulp x)) * ulp x"
    using ulp_pos [of x] by (rule mult_pos_pos)
  moreover from x have "\<bar>x\<bar> = x" "x \<noteq> 0" by simp_all
  ultimately show ?thesis
    unfolding binary64_def by (simp only: if_False)
qed

text \<open>The bound on the position does not rest on exact arithmetic: with the rounding
  of the source, a buy from a flat position leaves the engine as it was or leaves a
  positive position.  (A sell assigns 0 to the position and rounds nothing.)\<close>

lemma executeBuy_binary64_position:
  assumes "position e = 0"
  shows "executeBuy_binary64 e bar why = e \<or> 0 < position (executeBuy_binary64 e bar why)"
proof -
  define q :: real where
    "q = of_int \<lfloor>binary64 (binary64 (capital e - commission_or_0 (config e)) / bar_c bar)\<rfloor>"
  show ?thesis
  proof (cases "q \<le> 0")
    case True
    then have "executeBuy_binary64 e bar why = e"
      unfolding executeBuy_binary64_def Let_def q_def by (simp only: if_True)
    then show ?thesis by (rule disjI1)
  next
    case False
    then have "0 < position e + q" using assms by simp
    from binary64_pos [OF this] False
    have "0 < position (executeBuy_binary64 e bar why)"
      unfolding executeBuy_binary64_def Let_def q_def by simp
    then show ?thesis by (rule disjI2)
  qed
qed

lemma close_5_4: "binary64 (27 / 5) = 3039929748475085 / 562949953421312"
  by (simp add: binary64_def round_half_even_def ulp_small ulp_normal)

lemma quotient_185: "binary64 (999 / (3039929748475085 / 562949953421312)) = 185"
  by (simp add: binary64_def round_half_even_def ulp_small ulp_normal)

lemma product_999: "binary64 (185 * (3039929748475085 / 562949953421312)) = 999 + 1 / 2 ^ 43"
  by (simp add: binary64_def round_half_even_def ulp_small ulp_normal)

lemma binary64_fixed:
  "binary64 999 = 999" "binary64 185 = 185"
  "binary64 (1000 + 1 / 2 ^ 43) = 1000 + 1 / 2 ^ 43"
  "binary64 (- (1 / 2 ^ 43)) = - (1 / 2 ^ 43)"
  by (simp_all add: binary64_def round_half_even_def ulp_small ulp_normal)

lemma overspend_quantity:
  "\<lfloor>binary64 (binary64 (capital overspend_engine - commission_or_0 (config overspend_engine))
              / bar_c overspend_bar)\<rfloor> = 185"
proof -
  have "capital overspend_engine - commission_or_0 (config overspend_engine) = 999"
    by (simp add: overspend_engine_def new_BacktestEngine_def commission_or_0_def)
  moreover have "bar_c overspend_bar = 3039929748475085 / 562949953421312"
    by (simp add: overspend_bar_def mkbar_def close_5_4)
  moreover have "\<lfloor>185 :: real\<rfloor> = 185" by simp
  ultimately show ?thesis
    by (simp only: binary64_fixed(1) quotient_185)
qed

lemma overspend_cost:
  "binary64 (binary64 (185 * bar_c overspend_bar) + commission_or_0 (config overspend_engine))
     = 1000 + 1 / 2 ^ 43"
proof -
  have "bar_c overspend_bar = 3039929748475085 / 562949953421312"
    by (simp add: overspend_bar_def mkbar_def close_5_4)
  moreover have "commission_or_0 (config overspend_engine) = 1"
    by (simp add: overspend_engine_def new_BacktestEngine_def commission_or_0_def)
  moreover have "999 + 1 / 2 ^ 43 + 1 = (1000 + 1 / 2 ^ 43 :: real)" by simp
  ultimately show ?thesis
    by (simp only: product_999 binary64_fixed(3))
qed

lemma overspend_cash:
  "binary64 (capital overspend_engine - (1000 + 1 / 2 ^ 43)) = - (1 / 2 ^ 43)"
proof -
  have "capital overspend_engine - (1000 + 1 / 2 ^ 43) = - (1 / 2 ^ 43)"
    by (simp add: overspend_engine_def new_BacktestEngine_def)
  then show ?thesis
    by (simp only: binary64_fixed(4))
qed

text \<open>
  The claim C10 as stated fails.  On a fresh engine with a cash of 1000 and a commission of
  1, the stub strategy signals a buy at bar 0 with confidence 1, and at a close of 5.4
  (positive, as the claim asks) \<^verbatim>\<open>executeBuy\<close> fills \<open>floor(999 / 5.4) = 185\<close>
  shares: the quotient, a little below 185 in exact arithmetic since the binary64 nearest
  to 5.4 lies above it, rounds to 185.  The product \<open>185 * 5.4\<close> rounds up to
  \<open>999 + 2^-43\<close>; the debit \<open>1000 + 2^-43\<close> exceeds the cash, and the cash left is
  \<open>-2^-43\<close>, the \<^verbatim>\<open>-1.1368683772161603e-13\<close> of the source.
\<close>

theorem executeBuy_binary64_overspends:
  "0 < bar_c overspend_bar \<and>
   0 \<le> commission_or_0 (config overspend_engine) \<and>
   capital overspend_engine = 1000 \<and> position overspend_engine = 0 \<and>
   map_sum id (\<lambda>s. (action s, confidence s))
     (analyze (strategy (config overspend_engine)) [overspend_bar] 0) = Inr (buy, 1) \<and>
   trade_quantity (last (trades (executeBuy_binary64 overspend_engine overspend_bar None))) = 185 \<and>
   trade_value (last (trades (executeBuy_binary64 overspend_engine overspend_bar None)))
     = 1000 + 1 / 2 ^ 43 \<and>
   capital (executeBuy_binary64 overspend_engine overspend_bar None) = - (1 / 2 ^ 43) \<and>
   capital (executeBuy_binary64 overspend_engine overspend_bar None) < 0"
proof -
  have c: "0 < bar_c overspend_bar"
    by (simp add: overspend_bar_def mkbar_def close_5_4)
  have e: "capital overspend_engine = 1000" "0 \<le> commission_or_0 (config overspend_engine)"
    "position overspend_engine = 0"
    by (simp_all add: overspend_engine_def new_BacktestEngine_def commission_or_0_def)
  have s: "map_sum id (\<lambda>s. (action s, confidence s))
     (analyze (strategy (config overspend_engine)) [overspend_bar] 0) = Inr (buy, 1)"
    by (simp add: overspend_engine_def new_BacktestEngine_def stub_strategy_def bar_at_def)
  have b: "executeBuy_binary64 overspend_engine overspend_bar None =
      overspend_engine\<lparr>capital := - (1 / 2 ^ 43),
        position := binary64 (position overspend_engine + 185),
        trades := trades overspend_engine @
          [\<lparr>trade_timestamp = bar_t overspend_bar, trade_action = buy,
            trade_symbol = symbol (config overspend_engine), trade_quantity = 185,
            trade_price = bar_c overspend_bar, trade_value = 1000 + 1 / 2 ^ 43,
            trade_reason = reason_or_default None\<rparr>]\<rparr>"
    unfolding executeBuy_binary64_def Let_def overspend_quantity
    using overspend_cash by (simp add: overspend_cost)
  show ?thesis
    unfolding b using c e s by simp
qed

section \<open>The shared instances of the registry\<close>

text \<open>
  Claim C9.  For a registered identifier and a parameter map, \<^verbatim>\<open>getStrategy(id, params)\<close>
  returns the reference the registry holds (no object is allocated, no other object
  changes) and assigns the merged map \<open>parameters ++ params\<close> to that object.  A later
  \<^verbatim>\<open>getStrategy(id)\<close> without parameters returns the same reference and changes
  nothing, so the object it returns still carries every override, next to the parameters
  that were not overridden.
\<close>

theorem getStrategy_shared_instance:
  assumes "strategies st sid = Some r" and "heap st r = Some obj"
  shows "getStrategy sid (Some ps) st =
           (Some r, st\<lparr>heap := (heap st)(r \<mapsto> obj\<lparr>parameters := parameters obj ++ ps\<rparr>)\<rparr>) \<and>
         strategies (snd (getStrategy sid (Some ps) st)) = strategies st \<and>
         dom (heap (snd (getStrategy sid (Some ps) st))) = dom (heap st) \<and>
         (\<forall>r'. r' \<noteq> r \<longrightarrow> heap (snd (getStrategy sid (Some ps) st)) r' = heap st r') \<and>
         getStrategy sid None (snd (getStrategy sid (Some ps) st)) =
           (Some r, snd (getStrategy sid (Some ps) st)) \<and>
         (\<exists>obj'. heap (snd (getStrategy sid (Some ps) st)) r = Some obj' \<and>
            instance_name obj' = instance_name obj \<and>
            parameters obj' = parameters obj ++ ps \<and>
            (\<forall>k v. ps k = Some v \<longrightarrow> parameters obj' k = Some v) \<and>
            (\<forall>k. ps k = None \<longrightarrow> parameters obj' k = parameters obj k))"
proof -
  have g: "getStrategy sid (Some ps) st =
           (Some r, st\<lparr>heap := (heap st)(r \<mapsto> obj\<lparr>parameters := parameters obj ++ ps\<rparr>)\<rparr>)"
    using assms by (simp add: getStrategy_def)
  have d: "dom ((heap st)(r \<mapsto> obj\<lparr>parameters := parameters obj ++ ps\<rparr>)) = dom (heap st)"
    using assms(2) by auto
  have l: "getStrategy sid None
             (st\<lparr>heap := (heap st)(r \<mapsto> obj\<lparr>parameters := parameters obj ++ ps\<rparr>)\<rparr>)
           = (Some r, st\<lparr>heap := (heap st)(r \<mapsto> obj\<lparr>parameters := parameters obj ++ ps\<rparr>)\<rparr>)"
    using assms(1) by (simp add: getStrategy_def)
  have m: "\<forall>k. ps k = None \<longrightarrow> (parameters obj ++ ps) k = parameters obj k"
    by (simp add: map_add_def)
  show ?thesis
    unfolding g using d l m by (simp add: map_add_Some_iff)
qed

theorem getStrategy_shared_instance_witness:
  "strategies initial_registry ''sma-crossover'' = Some 0 \<and>
   (\<exists>obj. heap initial_registry 0 = Some obj \<and> parameters obj ''shortPeriod'' = Some 10) \<and>
   fst (getStrategy ''sma-crossover'' (Some [''shortPeriod'' \<mapsto> 5]) initial_registry) = Some 0 \<and>
   fst (getStrategy ''sma-crossover'' None
          (snd (getStrategy ''sma-crossover'' (Some [''shortPeriod'' \<mapsto> 5]) initial_registry)))
     = Some 0 \<and>
   (\<exists>obj'. heap (snd (getStrategy ''sma-crossover'' None
          (snd (getStrategy ''sma-crossover'' (Some [''shortPeriod'' \<mapsto> 5]) initial_registry)))) 0
        = Some obj' \<and>
      parameters obj' ''shortPeriod'' = Some 5 \<and> parameters obj' ''longPeriod'' = Some 30)"
proof -
  let ?obj = "\<lparr>instance_name = ''SMA Crossover'',
                instance_description = ''Simple Moving Average crossover strategy - buy when short SMA crosses above long SMA'',
                parameters = [''shortPeriod'' \<mapsto> 10, ''longPeriod'' \<mapsto> (30::real)]\<rparr>"
  have s: "strategies initial_registry ''sma-crossover'' = Some 0"
    by (simp add: initial_registry_def)
  have h: "heap initial_registry 0 = Some ?obj"
    by (simp add: initial_registry_def)
  from getStrategy_shared_instance [OF s h, of "[''shortPeriod'' \<mapsto> 5]"] s h
  show ?thesis
    by (auto simp add: map_add_def)
qed

section \<open>When a run throws\<close>


lemma run_loop_returns:
  "\<forall>i\<in>set is. \<exists>s. analyze (strategy (config e)) bars (int i) = Inr s \<Longrightarrow>
   \<exists>st'. run_loop bars is (e, pk, dd) = Inr st'"
proof (induction "is" arbitrary: e pk dd)
  case Nil
  then show ?case by simp
next
  case (Cons i "is")
  then obtain s where a: "analyze (strategy (config e)) bars (int i) = Inr s" by auto
  then obtain e' pk' dd' where st: "run_step bars i (e, pk, dd) = Inr (e', pk', dd')"
    by (simp add: run_step_eq)
  have "config e' = config e" using run_step_facts(1) [OF st] .
  with Cons.prems have "\<forall>j\<in>set is. \<exists>s. analyze (strategy (config e')) bars (int j) = Inr s"
    by simp
  from Cons.IH [OF this] st show ?case by simp
qed



lemma run_loop_curve_length:
  "run_loop bars is (e, pk, dd) = Inr (e', pk', dd') \<Longrightarrow>
   length (equityCurve e') = length (equityCurve e) + length is"
proof (induction "is" arbitrary: e pk dd)
  case Nil
  then show ?case by simp
next
  case (Cons i "is")
  from Cons.prems obtain e1 pk1 dd1 where
    st: "run_step bars i (e, pk, dd) = Inr (e1, pk1, dd1)" and
    l: "run_loop bars is (e1, pk1, dd1) = Inr (e', pk', dd')"
    by (auto split: sum.splits)
  from Cons.IH [OF l] run_step_facts(2) [OF st] show ?case by simp
qed

text \<open>What \<^verbatim>\<open>run\<close> does on bars that are not empty, by the outcome of each of its
  stages.\<close>

lemma run_stages:
  assumes "bars \<noteq> []"
  shows "call_initialize (strategy (config e)) = Inl err \<Longrightarrow> run maxargs e bars = Inl err"
    and "call_initialize (strategy (config e)) = Inr u \<Longrightarrow>
         run_loop bars [0..<length bars] (e, initialCapital (config e), 0) = Inl err \<Longrightarrow>
         run maxargs e bars = Inl err"
    and "call_initialize (strategy (config e)) = Inr u \<Longrightarrow>
         run_loop bars [0..<length bars] (e, initialCapital (config e), 0) = Inr (e', pk, dd) \<Longrightarrow>
         run maxargs e bars =
           (if maxargs < length (equityCurve e) + length bars then Inl RangeError
            else Inr (report_of (if position e' > 0
                        then executeSell e' (last bars) (Some ''End of backtest'') else e'),
                      if position e' > 0
                      then executeSell e' (last bars) (Some ''End of backtest'') else e'))"
proof -
  show "run maxargs e bars = Inl err" if "call_initialize (strategy (config e)) = Inl err"
    using that by (simp add: run_eq [OF assms])
  show "run maxargs e bars = Inl err"
    if "call_initialize (strategy (config e)) = Inr u"
      and "run_loop bars [0..<length bars] (e, initialCapital (config e), 0) = Inl err"
    using that by (simp add: run_eq [OF assms])
  show "run maxargs e bars =
           (if maxargs < length (equityCurve e) + length bars then Inl RangeError
            else Inr (report_of (if position e' > 0
                        then executeSell e' (last bars) (Some ''End of backtest'') else e'),
                      if position e' > 0
                      then executeSell e' (last bars) (Some ''End of backtest'') else e'))"
    if i: "call_initialize (strategy (config e)) = Inr u"
      and l: "run_loop bars [0..<length bars] (e, initialCapital (config e), 0) = Inr (e', pk, dd)"
  proof -
    have "length (equityCurve e') = length (equityCurve e) + length bars"
      using run_loop_curve_length [OF l] by simp
    with i l show ?thesis
      by (simp add: run_eq [OF assms] generateReport_eq)
  qed
qed






section \<open>The result as a function of the inputs\<close>

lemma with_strategy_simps [simp]:
  "capital (with_strategy s e) = capital e"
  "position (with_strategy s e) = position e"
  "trades (with_strategy s e) = trades e"
  "equityCurve (with_strategy s e) = equityCurve e"
  "strategy (config (with_strategy s e)) = s"
  "symbol (config (with_strategy s e)) = symbol (config e)"
  "startDate (config (with_strategy s e)) = startDate (config e)"
  "endDate (config (with_strategy s e)) = endDate (config e)"
  "initialCapital (config (with_strategy s e)) = initialCapital (config e)"
  "commission_or_0 (config (with_strategy s e)) = commission_or_0 (config e)"
  by (simp_all add: with_strategy_def commission_or_0_def)








text \<open>An engine instance that has already run keeps its fields: a second \<^verbatim>\<open>run\<close> on it
  appends to the equity curve of the first.\<close>

lemma run_on_used_engine:
  assumes "run maxargs e bars = Inr (r, e')"
  shows "length (equity_curve r) = length (equityCurve e) + length bars"
proof -
  from assms have ne: "bars \<noteq> []"
    by (auto simp add: run_def split: if_splits)
  from assms obtain u where
    i: "call_initialize (strategy (config e)) = Inr u"
    using run_stages(1) [OF ne, of e _ maxargs]
    by (cases "call_initialize (strategy (config e))") auto
  from assms obtain e1 pk1 dd1 where
    l: "run_loop bars [0..<length bars] (e, initialCapital (config e), 0) = Inr (e1, pk1, dd1)"
    using run_stages(2) [OF ne i, of _ maxargs]
    by (cases "run_loop bars [0..<length bars] (e, initialCapital (config e), 0)") auto
  from run_stages(3) [OF ne i l, of maxargs] assms
  have "r = report_of (if position e1 > 0
              then executeSell e1 (last bars) (Some ''End of backtest'') else e1)"
    by (simp split: if_splits)
  with run_loop_curve_length [OF l] show ?thesis by simp
qed


end
